theory Spec2Isabelle
  imports Complex_Main "HOL-Library.Sublist" "HOL-Library.Product_Lexorder"
begin

section \<open>Numbers\<close>

text \<open>
  A TypeScript \<open>number\<close> is modelled as an exact rational: no rounding error of the
  binary floating-point representation and no NaN. Where the source divides by a number
  that can be zero, the model writes out what the infinite or undefined quotient is then
  compared with or clamped to, or carries the infinite result as a value of its own.
  \<open>Math.round\<close> rounds to the nearest integer, a half upwards.
\<close>

definition Math_round :: "rat \<Rightarrow> rat" where
  "Math_round x = of_int \<lfloor>x + 1 / 2\<rfloor>"

section \<open>Enumerations and result records of the calculator\<close>

datatype Sex = male | female

datatype BudgetLevel = budget_low | budget_medium | budget_high

datatype ProteinPreference = protein_low | protein_medium | protein_high

record KcalRange =
  range_min :: rat
  range_max :: rat
  range_target :: rat

record Macros =
  protein_g :: rat
  fat_g :: rat
  carbs_g :: rat

text \<open>The constant table \<open>MACRO_RATIOS\<close>.\<close>

definition PROTEIN_G_PER_KG_min :: rat where "PROTEIN_G_PER_KG_min = 1.6"
definition PROTEIN_G_PER_KG_max :: rat where "PROTEIN_G_PER_KG_max = 2.2"
definition FAT_G_PER_KG_min :: rat where "FAT_G_PER_KG_min = 0.6"
definition KCAL_PER_G_protein :: rat where "KCAL_PER_G_protein = 4"
definition KCAL_PER_G_fat :: rat where "KCAL_PER_G_fat = 9"
definition KCAL_PER_G_carbs :: rat where "KCAL_PER_G_carbs = 4"

section \<open>Metrics calculator (src/src/utils/calculators.ts)\<close>

definition calculateBMR_Mifflin :: "Sex \<Rightarrow> rat \<Rightarrow> rat \<Rightarrow> rat \<Rightarrow> rat" where
  "calculateBMR_Mifflin sex weight_kg height_cm age =
     (let base = 10 * weight_kg + 6.25 * height_cm - 5 * age;
          adjustment = (if sex = male then 5 else - 161)
      in Math_round (base + adjustment))"

definition calculateTDEE :: "rat \<Rightarrow> rat \<Rightarrow> rat" where
  "calculateTDEE bmr activity_factor = Math_round (bmr * activity_factor)"

definition calculateKcalRange :: "rat \<Rightarrow> rat \<Rightarrow> rat \<Rightarrow> Sex \<Rightarrow> KcalRange" where
  "calculateKcalRange tdee goal_weight_kg current_weight_kg sex =
     (let weight_diff = goal_weight_kg - current_weight_kg;
          min_safe_kcal = (if sex = male then 1500 else 1200);
          deficit_pct =
            (if weight_diff < - 5 then 0.225
             else if weight_diff < 0 then 0.15
             else if weight_diff > 5 then - 0.125
             else if weight_diff > 0 then - 0.075
             else 0);
          target = Math_round (tdee * (1 - deficit_pct));
          safe_target = max target min_safe_kcal
      in \<lparr> range_min = max (Math_round (safe_target * 0.95)) min_safe_kcal,
           range_max = Math_round (safe_target * 1.05),
           range_target = safe_target \<rparr>)"

definition calculateMacros :: "rat \<Rightarrow> rat \<Rightarrow> ProteinPreference \<Rightarrow> Macros" where
  "calculateMacros kcal_target goal_weight_kg preference_protein =
     (let protein_ratio =
            (case preference_protein of
               protein_low \<Rightarrow> PROTEIN_G_PER_KG_min
             | protein_high \<Rightarrow> PROTEIN_G_PER_KG_max
             | protein_medium \<Rightarrow> (PROTEIN_G_PER_KG_min + PROTEIN_G_PER_KG_max) / 2);
          protein = Math_round (goal_weight_kg * protein_ratio);
          fat = Math_round (goal_weight_kg * FAT_G_PER_KG_min);
          protein_kcal = protein * KCAL_PER_G_protein;
          fat_kcal = fat * KCAL_PER_G_fat;
          remaining_kcal = kcal_target - protein_kcal - fat_kcal;
          carbs = max 0 (Math_round (remaining_kcal / KCAL_PER_G_carbs))
      in \<lparr> protein_g = protein, fat_g = fat, carbs_g = carbs \<rparr>)"

section \<open>Records (src/unnamed/part\_004)\<close>

text \<open>
  The interfaces of the type module, with the fields the planning functions read.
  Optional fields (\<open>field?: T\<close>) are options; an optional boolean that is only ever
  tested for truth is a \<open>bool\<close> (absent reads as false). Record fields named \<open>id\<close>,
  \<open>name\<close> or \<open>type\<close> in the source carry the record's name here, as do fields
  that several interfaces share. The creation date of a user is its time value, the
  milliseconds that \<open>new Date(createdAt).getTime()\<close> yields.
\<close>

record UserPreferences =
  no_oil :: bool
  no_sugar :: bool
  no_fried :: bool
  dislikes :: "string list"
  likes :: "string list"

record HealthData =
  ldl :: "rat option"

record Equipment =
  treadmill :: bool
  dumbbells_kg :: "rat option"
  rope :: bool
  mat :: bool
  resistance_bands :: bool

record User =
  user_ident :: string
  sex :: Sex
  age :: rat
  height_cm :: rat
  weight_kg :: rat
  goal_weight_kg :: rat
  budget_level :: BudgetLevel
  preferences :: UserPreferences
  health :: HealthData
  equipment :: Equipment
  createdAt :: int

text \<open>
  \<open>Metrics\<close> without its \<open>bmi\<close> field, a display value that no planning function
  reads.
\<close>

record Metrics =
  bmr_mifflin :: rat
  tdee :: rat
  kcal_range :: KcalRange
  macros :: Macros
  activity_factor :: rat

datatype RecipeTag =
  sin_aceite | sin_azucar | budget | alta_prote | batch_cooking | rapida | social
  | colesterol_friendly | vegetal | bajo_sodio

text \<open>
  The meal types; a recipe's category is one of the first four.
\<close>

datatype MealType = desayuno | almuerzo | colacion | cena | post_entreno

record Nutrition =
  kcal :: rat
  protein :: rat
  fat :: rat
  carbs :: rat
  fiber :: rat

record RecipeIngredient =
  food_id :: string
  grams :: rat

record Recipe =
  recipe_ident :: string
  recipe_name :: string
  category :: MealType
  tags :: "RecipeTag list"
  ingredients :: "RecipeIngredient list"
  per_portion :: Nutrition
  prep_time_min :: rat
  cooking_time_min :: rat
  cost_estimate :: "rat option"

record Meal =
  meal_type :: MealType
  recipe_id :: string
  portions :: rat
  time_scheduled :: string
  completed :: bool

record MealPlanDay =
  plan_ident :: string
  user_id :: string
  date :: string
  meals :: "Meal list"
  totals :: Nutrition
  adherence :: "rat option"
  plan_notes :: string

section \<open>Strings\<close>

text \<open>
  \<open>String.prototype.toLowerCase\<close> on the ASCII letters (other characters are left as
  they are) and \<open>String.prototype.includes\<close>, the test for a contiguous substring.
\<close>

definition toLowerCase :: "string \<Rightarrow> string" where
  "toLowerCase s =
     map (\<lambda>c. let n = (of_char c :: nat) in if 65 \<le> n \<and> n \<le> 90 then char_of (n + 32) else c) s"

definition str_includes :: "string \<Rightarrow> string \<Rightarrow> bool" where
  "str_includes haystack needle = sublist needle haystack"

section \<open>Metrics calculator: all metrics of a user\<close>

definition calculateAllMetrics :: "User \<Rightarrow> rat \<Rightarrow> Metrics" where
  "calculateAllMetrics user af =
     (let bmr = calculateBMR_Mifflin (sex user) (weight_kg user) (height_cm user) (age user);
          t = calculateTDEE bmr af;
          range = calculateKcalRange t (goal_weight_kg user) (weight_kg user) (sex user);
          m = calculateMacros (range_target range) (goal_weight_kg user) protein_medium
      in \<lparr> bmr_mifflin = bmr, tdee = t, kcal_range = range, macros = m,
           activity_factor = af \<rparr>)"

section \<open>Meal plan generator (src/src/utils/calculators.ts, second module)\<close>

record DayTemplate =
  template_ident :: string
  template_name :: string
  has_breakfast :: bool
  has_snack :: bool
  has_fasting :: bool
  kcal_distribution :: "(MealType \<times> rat) list"

record PersonalizationRules =
  rule_no_oil :: bool
  rule_no_sugar :: bool
  rule_no_fried :: bool
  budget_priority :: bool
  cholesterol_friendly :: bool
  high_protein :: bool
  rule_batch_cooking :: bool
  excluded_ingredients :: "string list"
  preferred_ingredients :: "string list"
  max_prep_time :: "rat option"

text \<open>
  \<open>DAY_TEMPLATES\<close>. The distribution of a template is the list of its entries in the
  order \<open>Object.entries\<close> yields them, the order of the object literal. Display names
  are written without their accents.
\<close>

definition normal_day :: DayTemplate where
  "normal_day = \<lparr> template_ident = ''normal_day'', template_name = ''Dia normal'',
     has_breakfast = True, has_snack = True, has_fasting = False,
     kcal_distribution = [(desayuno, 0.18), (almuerzo, 0.35), (colacion, 0.15),
                          (cena, 0.27), (post_entreno, 0.05)] \<rparr>"

definition fasting_morning :: DayTemplate where
  "fasting_morning = \<lparr> template_ident = ''fasting_morning'',
     template_name = ''Ayuno mananero'',
     has_breakfast = False, has_snack = True, has_fasting = True,
     kcal_distribution = [(almuerzo, 0.40), (colacion, 0.20), (cena, 0.35),
                          (post_entreno, 0.05)] \<rparr>"

definition simple_3_meals :: DayTemplate where
  "simple_3_meals = \<lparr> template_ident = ''simple_3_meals'',
     template_name = ''Tres comidas simples'',
     has_breakfast = True, has_snack = False, has_fasting = False,
     kcal_distribution = [(desayuno, 0.25), (almuerzo, 0.40), (cena, 0.35)] \<rparr>"

definition DAY_TEMPLATES :: "DayTemplate list" where
  "DAY_TEMPLATES = [normal_day, fasting_morning, simple_3_meals]"

definition generatePersonalizationRules :: "User \<Rightarrow> PersonalizationRules" where
  "generatePersonalizationRules user =
     \<lparr> rule_no_oil = no_oil (preferences user),
       rule_no_sugar = no_sugar (preferences user),
       rule_no_fried = no_fried (preferences user),
       budget_priority = (budget_level user = budget_low),
       cholesterol_friendly = (case ldl (health user) of None \<Rightarrow> False | Some l \<Rightarrow> l > 130),
       high_protein = (goal_weight_kg user < weight_kg user),
       rule_batch_cooking = (''batch_cooking'' \<in> set (likes (preferences user))),
       excluded_ingredients = dislikes (preferences user),
       preferred_ingredients = likes (preferences user),
       max_prep_time = (if budget_level user = budget_low then Some 30 else None) \<rparr>"

definition selectDayTemplate :: "User \<Rightarrow> PersonalizationRules \<Rightarrow> DayTemplate" where
  "selectDayTemplate user rules =
     (if ''ayuno_intermitente'' \<in> set (likes (preferences user)) then
        (case find (\<lambda>t. template_ident t = ''fasting_morning'') DAY_TEMPLATES of
           Some t \<Rightarrow> t | None \<Rightarrow> normal_day)
      else if budget_priority rules \<and> \<not> rule_batch_cooking rules then
        (case find (\<lambda>t. template_ident t = ''simple_3_meals'') DAY_TEMPLATES of
           Some t \<Rightarrow> t | None \<Rightarrow> normal_day)
      else normal_day)"

definition filterRecipesByRules ::
  "Recipe list \<Rightarrow> PersonalizationRules \<Rightarrow> MealType option \<Rightarrow> Recipe list" where
  "filterRecipesByRules recipes rules cat =
     filter (\<lambda>recipe.
        if (case cat of None \<Rightarrow> False | Some c \<Rightarrow> category recipe \<noteq> c) then False
        else if rule_no_oil rules \<and> sin_aceite \<notin> set (tags recipe) then False
        else if rule_no_sugar rules \<and> sin_azucar \<notin> set (tags recipe) then False
        else if (\<exists>excluded \<in> set (excluded_ingredients rules).
                   \<exists>ing \<in> set (ingredients recipe).
                     str_includes (food_id ing) (toLowerCase excluded)) then False
        else if (case max_prep_time rules of
                   None \<Rightarrow> False
                 | Some m \<Rightarrow> m \<noteq> 0 \<and> prep_time_min recipe + cooking_time_min recipe > m)
             then False
        else True) recipes"

definition scoreRecipe :: "Recipe \<Rightarrow> PersonalizationRules \<Rightarrow> rat" where
  "scoreRecipe recipe rules =
     (if budget_priority rules \<and> budget \<in> set (tags recipe) then 3 else 0)
     + (if cholesterol_friendly rules \<and> colesterol_friendly \<in> set (tags recipe) then 2 else 0)
     + (if high_protein rules \<and> alta_prote \<in> set (tags recipe) then 2 else 0)
     + (if rule_batch_cooking rules \<and> batch_cooking \<in> set (tags recipe) then 1 else 0)
     + (if rapida \<in> set (tags recipe) then 1 else 0)
     + (if (\<exists>preferred \<in> set (preferred_ingredients rules).
              \<exists>ing \<in> set (ingredients recipe).
                str_includes (food_id ing) (toLowerCase preferred)) then 1 else 0)
     - (if budget_priority rules
           \<and> (case cost_estimate recipe of None \<Rightarrow> False | Some c \<Rightarrow> c \<noteq> 0 \<and> c > 1500)
        then 2 else 0)"

text \<open>
  The relative deviation \<open>|kcal - target| / target\<close> is compared with the tolerance.
  With a zero target the source's quotient is \<open>Infinity\<close> or \<open>NaN\<close> and the comparison
  is false.
\<close>

definition inCalorieRange :: "rat \<Rightarrow> rat \<Rightarrow> Recipe \<Rightarrow> bool" where
  "inCalorieRange targetKcal tolerance recipe =
     (targetKcal \<noteq> 0
      \<and> \<bar>kcal (per_portion recipe) - targetKcal\<bar> / targetKcal \<le> tolerance)"

text \<open>
  The comparator of the sort orders by score, higher first, then by \<open>kcalDiff\<close>, lower
  first; \<open>Array.prototype.sort\<close> is stable, so the result is the stable sort by the
  pair \<open>(- score, kcalDiff)\<close> in lexicographic order.
\<close>

definition kcalDiff :: "rat \<Rightarrow> Recipe \<Rightarrow> rat" where
  "kcalDiff targetKcal recipe = \<bar>kcal (per_portion recipe) - targetKcal\<bar>"

definition selectRecipeForCalories ::
  "Recipe list \<Rightarrow> rat \<Rightarrow> PersonalizationRules \<Rightarrow> rat \<Rightarrow> Recipe option" where
  "selectRecipeForCalories availableRecipes targetKcal rules tolerance =
     (if availableRecipes = [] then None
      else
        let inRangeRecipes = filter (inCalorieRange targetKcal tolerance) availableRecipes;
            recipesToScore = (if inRangeRecipes \<noteq> [] then inRangeRecipes else availableRecipes);
            scoredRecipes =
              sort_key (\<lambda>recipe. (- scoreRecipe recipe rules, kcalDiff targetKcal recipe))
                recipesToScore
        in (case scoredRecipes of [] \<Rightarrow> None | best # _ \<Rightarrow> Some best))"

text \<open>
  \<open>targetKcal / baseKcal\<close> clamped to \<open>[0.5, maxPortion]\<close>. With \<open>baseKcal = 0\<close> the
  source's quotient is \<open>Infinity\<close> for a positive target and \<open>-Infinity\<close> for a negative
  one, which the clamp turns into \<open>max 0.5 maxPortion\<close> and \<open>0.5\<close>. With both zero it
  is \<open>NaN\<close>, which has no counterpart here; the generator never asks for it, as every
  slot target it computes is at least 60 (\<open>mealTargetKcal_ge_60\<close> below).
\<close>

definition clampedPortions :: "rat \<Rightarrow> rat \<Rightarrow> rat \<Rightarrow> rat" where
  "clampedPortions targetKcal baseKcal maxPortion =
     (if baseKcal \<noteq> 0 then max 0.5 (min maxPortion (targetKcal / baseKcal))
      else if targetKcal > 0 then max 0.5 maxPortion
      else 0.5)"

definition adjustPortionsForCalories :: "Recipe \<Rightarrow> rat \<Rightarrow> rat \<Rightarrow> rat \<times> rat" where
  "adjustPortionsForCalories recipe targetKcal maxPortion =
     (let baseKcal = kcal (per_portion recipe);
          p = clampedPortions targetKcal baseKcal maxPortion;
          p = Math_round (p * 4) / 4;
          adjustedKcal = Math_round (baseKcal * p)
      in (p, adjustedKcal))"

definition getScheduledTime :: "MealType \<Rightarrow> string" where
  "getScheduledTime mealType =
     (case mealType of
        desayuno \<Rightarrow> ''08:00'' | almuerzo \<Rightarrow> ''13:00'' | colacion \<Rightarrow> ''16:00''
      | cena \<Rightarrow> ''20:00'' | post_entreno \<Rightarrow> ''18:30'')"

text \<open>
  One pass of the loop of \<open>generateDailyMealPlan\<close> over a template entry. \<open>planSlot\<close>
  is what the body computes for the entry: nothing when no recipe is selected (the
  \<open>continue\<close>), otherwise the meal pushed and the amounts added to the running totals.
\<close>

definition planSlot ::
  "Recipe list \<Rightarrow> PersonalizationRules \<Rightarrow> rat \<Rightarrow> MealType \<times> rat \<Rightarrow> (Meal \<times> Nutrition) option" where
  "planSlot recipes rules targetKcal entry =
     (let mealCategory = fst entry;
          kcalPct = snd entry;
          mealTargetKcal = Math_round (targetKcal * kcalPct);
          categoryForFilter = (if mealCategory = post_entreno then colacion else mealCategory);
          availableRecipes = filterRecipesByRules recipes rules (Some categoryForFilter)
      in (case selectRecipeForCalories availableRecipes mealTargetKcal rules 0.15 of
            None \<Rightarrow> None
          | Some selectedRecipe \<Rightarrow>
              let pa = adjustPortionsForCalories selectedRecipe mealTargetKcal 2
              in Some (\<lparr> meal_type = mealCategory, recipe_id = recipe_ident selectedRecipe,
                         portions = fst pa, time_scheduled = getScheduledTime mealCategory,
                         completed = False \<rparr>,
                       \<lparr> kcal = snd pa,
                         protein = Math_round (protein (per_portion selectedRecipe) * fst pa),
                         fat = Math_round (fat (per_portion selectedRecipe) * fst pa),
                         carbs = Math_round (carbs (per_portion selectedRecipe) * fst pa),
                         fiber = Math_round (fiber (per_portion selectedRecipe) * fst pa) \<rparr>)))"

definition addNutrition :: "Nutrition \<Rightarrow> Nutrition \<Rightarrow> Nutrition" where
  "addNutrition a b =
     \<lparr> kcal = kcal a + kcal b, protein = protein a + protein b, fat = fat a + fat b,
       carbs = carbs a + carbs b, fiber = fiber a + fiber b \<rparr>"

definition zeroNutrition :: Nutrition where
  "zeroNutrition = \<lparr> kcal = 0, protein = 0, fat = 0, carbs = 0, fiber = 0 \<rparr>"

fun mealLoop ::
  "Recipe list \<Rightarrow> PersonalizationRules \<Rightarrow> rat \<Rightarrow> (MealType \<times> rat) list
     \<Rightarrow> Meal list \<times> Nutrition \<Rightarrow> Meal list \<times> Nutrition" where
  "mealLoop recipes rules targetKcal [] acc = acc"
| "mealLoop recipes rules targetKcal (entry # rest) acc =
     (case planSlot recipes rules targetKcal entry of
        None \<Rightarrow> mealLoop recipes rules targetKcal rest acc
      | Some (meal, amounts) \<Rightarrow>
          mealLoop recipes rules targetKcal rest (fst acc @ [meal], addNutrition (snd acc) amounts))"

text \<open>
  \<open>generateDailyMealPlan\<close>: \<open>None\<close> is the source's \<open>null\<close>. Nothing in the body of
  the \<open>try\<close> throws on well-typed arguments, so the \<open>catch\<close> branch has no counterpart.
\<close>

definition generateDailyMealPlan ::
  "User \<Rightarrow> Recipe list \<Rightarrow> string \<Rightarrow> rat \<Rightarrow> MealPlanDay option" where
  "generateDailyMealPlan user recipes day activityFactor =
     (let metrics = calculateAllMetrics user activityFactor;
          rules = generatePersonalizationRules user;
          template = selectDayTemplate user rules;
          targetKcal = range_target (kcal_range metrics);
          result = mealLoop recipes rules targetKcal (kcal_distribution template)
                     ([], zeroNutrition)
      in if fst result = [] then None
         else Some \<lparr> plan_ident = user_ident user @ ''_'' @ day,
                     user_id = user_ident user,
                     date = day,
                     meals = fst result,
                     totals = snd result,
                     adherence = Some 0,
                     plan_notes = ''Plan generado con plantilla: '' @ template_name template \<rparr>)"

text \<open>
  \<open>validateMealPlan\<close>. An issue carries the numbers its message prints. The protein
  deviation \<open>|protein - target| / target\<close> is compared with 0.20; with a zero protein
  target the source's quotient is \<open>Infinity\<close> when the plan has any protein and \<open>NaN\<close>
  otherwise. The calorie target is never zero (it is at least the safety floor). The
  quotients here are exact; the source compares quotients of doubles, which decide the
  same way when the totals and the targets are whole numbers.
\<close>

datatype Issue = Calorias_fuera_de_rango rat rat | Proteina_insuficiente rat rat

definition validateMealPlan :: "MealPlanDay \<Rightarrow> User \<Rightarrow> rat \<Rightarrow> bool \<times> Issue list" where
  "validateMealPlan plan user activityFactor =
     (let metrics = calculateAllMetrics user activityFactor;
          kcalTarget = range_target (kcal_range metrics);
          proteinTarget = protein_g (macros metrics);
          kcalDeviation = \<bar>kcal (totals plan) - kcalTarget\<bar> / kcalTarget;
          issues1 = (if kcalDeviation > 0.15
                     then [Calorias_fuera_de_rango (kcal (totals plan)) kcalTarget] else []);
          proteinOver =
            (if proteinTarget = 0 then protein (totals plan) \<noteq> 0
             else \<bar>protein (totals plan) - proteinTarget\<bar> / proteinTarget > 0.20);
          issues2 = (if proteinOver
                     then [Proteina_insuficiente (protein (totals plan)) proteinTarget] else []);
          issues = issues1 @ issues2
      in (issues = [], issues))"

section \<open>Workout and progress records (src/unnamed/part\_004)\<close>

datatype BlockType = run | hiit | strength | warmup | cooldown

datatype Intensity = intensity_low | intensity_medium | intensity_high

datatype RunType = continuous | intervals

text \<open>\<open>reps: number | 'AMRAP' | 'time'\<close>.\<close>

datatype Reps = Count rat | AMRAP | Timed

record StrengthExercise =
  exercise_name :: string
  sets :: rat
  reps :: Reps
  duration_sec :: "rat option"
  rest_sec :: rat

text \<open>
  The union \<open>RunDetails | HIITDetails | StrengthDetails | BasicDetails\<close>. The fields
  of \<open>RunDetails\<close> are \<open>speed_kmh\<close> and \<open>type\<close>; of \<open>HIITDetails\<close>, \<open>work_sec\<close>,
  \<open>rest_sec\<close>, \<open>rounds\<close> and \<open>exercises\<close>; of \<open>StrengthDetails\<close>, \<open>exercises\<close>; of
  \<open>BasicDetails\<close>, \<open>description\<close> and \<open>intensity\<close>.
\<close>

datatype Details =
  RunDetails rat RunType
  | HIITDetails rat rat rat "string list"
  | StrengthDetails "StrengthExercise list"
  | BasicDetails string "Intensity option"

record TemplateBlock =
  block_type :: BlockType
  block_name :: string
  details :: Details
  duration_min :: rat

record WorkoutBlock = TemplateBlock +
  kcal_estimate :: rat

text \<open>\<open>WorkoutPlanDay\<close> without its notes, a display text.\<close>

record WorkoutPlanDay =
  workout_ident :: string
  workout_user_id :: string
  workout_date :: string
  blocks :: "WorkoutBlock list"
  workout_duration_min :: rat
  workout_kcal_estimate :: rat
  workout_completed :: bool
  rpe :: "rat option"

record PersonalRecords =
  pushups_max :: rat
  abs_max :: rat
  plank_sec :: rat
  run_speed_kmh :: rat
  run_duration_min :: rat

text \<open>
  A measurement with its date as the number of milliseconds that
  \<open>new Date(date).getTime()\<close> yields.
\<close>

record Measurement =
  measurement_date :: int
  measurement_weight_kg :: rat

text \<open>
  A suggestion without its message (a text formatted from the numbers of the analysis)
  and its creation time (read from the clock).
\<close>

record ProgressSuggestion =
  rule_id :: string
  action_required :: bool
  auto_applied :: bool

datatype WeightTrend = fast_loss | normal_loss | slow_loss | maintenance | gain

text \<open>
  The weekly weight change is a number that can be infinite (a division by a weight of
  zero): a finite value, \<open>Infinity\<close> or \<open>-Infinity\<close>. \<open>isBelow x c\<close> is the source's
  \<open>x < c\<close> and \<open>isAtLeast x c\<close> its \<open>x >= c\<close>, for a finite bound \<open>c\<close>.
\<close>

datatype ExtNumber = Finite rat | PosInfinity | NegInfinity

fun isBelow :: "ExtNumber \<Rightarrow> rat \<Rightarrow> bool" where
  "isBelow (Finite x) c = (x < c)"
| "isBelow PosInfinity c = False"
| "isBelow NegInfinity c = True"

fun isAtLeast :: "ExtNumber \<Rightarrow> rat \<Rightarrow> bool" where
  "isAtLeast (Finite x) c = (x \<ge> c)"
| "isAtLeast PosInfinity c = True"
| "isAtLeast NegInfinity c = False"

record WeeklyProgressAnalysis =
  weight_change_pct :: ExtNumber
  weight_trend :: WeightTrend
  adherence_score :: rat
  protein_compliance :: rat
  avg_rpe :: rat
  kcal_adjustment_needed :: bool
  volume_adjustment_needed :: bool
  suggestions :: "ProgressSuggestion list"

section \<open>Progress tracking engine (src/src/utils/progressTracking.ts)\<close>

text \<open>
  The search of \<open>calculateWeeklyWeightChange\<close> for the measurement closest to the
  target date: the loop keeps the first measurement of the least distance.
\<close>

fun closestLoop :: "int \<Rightarrow> Measurement list \<Rightarrow> Measurement \<times> int \<Rightarrow> Measurement \<times> int" where
  "closestLoop targetDate [] acc = acc"
| "closestLoop targetDate (measurement # rest) acc =
     (let diff = \<bar>measurement_date measurement - targetDate\<bar>
      in if diff < snd acc then closestLoop targetDate rest (measurement, diff)
         else closestLoop targetDate rest acc)"

text \<open>
  \<open>setDate(getDate() - weeksBack * 7)\<close> moves the target date back by whole days, here
  days of 86400000 ms. With a closest weight of zero (and a latest weight that differs
  from it) the source's quotient is \<open>Infinity\<close> or \<open>-Infinity\<close>, by the sign of the
  latest weight, and stays so through the scaling and the rounding. The rounding to one
  decimal is that of the exact quotient; the source rounds the quotient of two doubles,
  which can differ when the change times ten is within rounding error of a half.
\<close>

definition calculateWeeklyWeightChange :: "Measurement list \<Rightarrow> int \<Rightarrow> ExtNumber" where
  "calculateWeeklyWeightChange measurements weeksBack =
     (if length measurements < 2 then Finite 0
      else
        let sortedMeasurements = sort_key measurement_date measurements;
            latestMeasurement = last sortedMeasurements;
            targetDate = measurement_date latestMeasurement - weeksBack * 7 * 86400000;
            first = hd sortedMeasurements;
            closestMeasurement =
              fst (closestLoop targetDate sortedMeasurements
                     (first, \<bar>measurement_date first - targetDate\<bar>))
        in if measurement_weight_kg closestMeasurement = measurement_weight_kg latestMeasurement
           then Finite 0
           else if measurement_weight_kg closestMeasurement = 0
           then (if measurement_weight_kg latestMeasurement > 0 then PosInfinity
                 else NegInfinity)
           else
             let weightChange =
                   ((measurement_weight_kg latestMeasurement
                       - measurement_weight_kg closestMeasurement)
                    / measurement_weight_kg closestMeasurement) * 100
             in Finite (Math_round (weightChange * 10) / 10))"

fun adherenceLoop :: "MealPlanDay list \<Rightarrow> rat \<times> rat \<Rightarrow> rat \<times> rat" where
  "adherenceLoop [] acc = acc"
| "adherenceLoop (plan # rest) acc =
     (let completedMeals = of_nat (length (filter completed (meals plan)));
          totalMeals = of_nat (length (meals plan))
      in if totalMeals > 0
         then adherenceLoop rest (fst acc + (completedMeals / totalMeals) * 100, snd acc + 1)
         else adherenceLoop rest acc)"

definition calculateMealPlanAdherence :: "MealPlanDay list \<Rightarrow> rat" where
  "calculateMealPlanAdherence mealPlans =
     (if mealPlans = [] then 0
      else let r = adherenceLoop mealPlans (0, 0)
           in if snd r > 0 then Math_round (fst r / snd r) else 0)"

definition calculateProteinCompliance :: "MealPlanDay list \<Rightarrow> User \<Rightarrow> rat \<Rightarrow> rat" where
  "calculateProteinCompliance mealPlans user activityFactor =
     (if mealPlans = [] then 0
      else
        let metrics = calculateAllMetrics user activityFactor;
            proteinTarget = protein_g (macros metrics)
        in of_nat (length (filter (\<lambda>plan.
             let adh = (case adherence plan of
                          Some a \<Rightarrow> if a \<noteq> 0 then a else calculateMealPlanAdherence [plan]
                        | None \<Rightarrow> calculateMealPlanAdherence [plan])
             in adh \<ge> 70 \<and> protein (totals plan) \<ge> proteinTarget * 0.9) mealPlans)))"

definition rpeOrZero :: "WorkoutPlanDay \<Rightarrow> rat" where
  "rpeOrZero w = (case rpe w of None \<Rightarrow> 0 | Some r \<Rightarrow> r)"

definition calculateAverageRPE :: "WorkoutPlanDay list \<Rightarrow> rat" where
  "calculateAverageRPE workouts =
     (let completedWorkouts = filter (\<lambda>w. workout_completed w \<and> rpeOrZero w \<noteq> 0) workouts
      in if completedWorkouts = [] then 0
         else
           let totalRPE = foldl (\<lambda>sum w. sum + rpeOrZero w) 0 completedWorkouts
           in Math_round ((totalRPE / of_nat (length completedWorkouts)) * 10) / 10)"

definition detectPerformanceImprovements :: "PersonalRecords \<Rightarrow> PersonalRecords option \<Rightarrow> bool" where
  "detectPerformanceImprovements currentRecords previousRecords =
     (case previousRecords of
        None \<Rightarrow> False
      | Some previous \<Rightarrow>
          let improvements =
                [pushups_max currentRecords > pushups_max previous,
                 abs_max currentRecords > abs_max previous,
                 plank_sec currentRecords > plank_sec previous,
                 run_speed_kmh currentRecords > run_speed_kmh previous,
                 run_duration_min currentRecords > run_duration_min previous]
          in length (filter (\<lambda>b. b) improvements) \<ge> 2)"

definition analyzeWeeklyProgress ::
  "User \<Rightarrow> Measurement list \<Rightarrow> MealPlanDay list \<Rightarrow> WorkoutPlanDay list \<Rightarrow> PersonalRecords
     \<Rightarrow> PersonalRecords option \<Rightarrow> rat \<Rightarrow> WeeklyProgressAnalysis" where
  "analyzeWeeklyProgress user measurements mealPlans workouts currentRecords previousRecords
     activityFactor =
     (let pct = calculateWeeklyWeightChange measurements 1;
          adherence_sc = calculateMealPlanAdherence mealPlans;
          protein_comp = calculateProteinCompliance mealPlans user activityFactor;
          rpe_avg = calculateAverageRPE workouts;
          performance_improved = detectPerformanceImprovements currentRecords previousRecords;
          trend = (if isBelow pct (- 1) then fast_loss
                   else if isBelow pct (- 0.25) then normal_loss
                   else if isBelow pct 0.25 then maintenance
                   else gain);
          trend = (if isAtLeast pct (- 0.25) \<and> isBelow pct 0
                   then (if isAtLeast (calculateWeeklyWeightChange measurements 2) (- 0.5)
                         then slow_loss else trend)
                   else trend);
          losing = (goal_weight_kg user < weight_kg user);
          rule1 = (trend = fast_loss \<and> losing);
          rule2 = (trend = slow_loss \<and> losing);
          rule3 = (protein_comp < of_nat (length mealPlans) - 3);
          rule4 = (rpe_avg \<ge> 8
                   \<and> length (filter (\<lambda>w. workout_completed w \<and> rpeOrZero w \<ge> 8) workouts) \<ge> 3);
          rule5 = performance_improved
      in \<lparr> weight_change_pct = pct,
           weight_trend = trend,
           adherence_score = adherence_sc,
           protein_compliance = protein_comp,
           avg_rpe = rpe_avg,
           kcal_adjustment_needed = (rule1 \<or> rule2),
           volume_adjustment_needed = (rule4 \<or> rule5),
           suggestions =
             (if rule1 then [\<lparr> rule_id = ''weight_loss_too_fast'', action_required = True,
                                auto_applied = False \<rparr>] else [])
             @ (if rule2 then [\<lparr> rule_id = ''weight_loss_too_slow'', action_required = True,
                                  auto_applied = False \<rparr>] else [])
             @ (if rule3 then [\<lparr> rule_id = ''protein_insufficient'', action_required = True,
                                  auto_applied = False \<rparr>] else [])
             @ (if rule4 then [\<lparr> rule_id = ''rpe_too_high'', action_required = True,
                                  auto_applied = False \<rparr>] else [])
             @ (if rule5 then [\<lparr> rule_id = ''performance_improved'', action_required = False,
                                  auto_applied = True \<rparr>] else [])
             @ (if adherence_sc < 70
                then [\<lparr> rule_id = ''low_adherence'', action_required = True,
                         auto_applied = False \<rparr>]
                else if adherence_sc \<ge> 90
                then [\<lparr> rule_id = ''excellent_adherence'', action_required = False,
                         auto_applied = False \<rparr>]
                else []) \<rparr>)"


section \<open>Workout plan generator (src/src/utils/googleCalendar.ts, second module)\<close>

datatype FitnessLevel = beginner | intermediate | advanced

datatype WorkoutType = type_run | type_hiit | type_strength | type_mixed

text \<open>\<open>keyof Equipment\<close>.\<close>

datatype EquipmentKey =
  key_treadmill | key_dumbbells_kg | key_rope | key_mat | key_resistance_bands

record WorkoutTemplate =
  workout_template_ident :: string
  workout_template_name :: string
  workout_type :: WorkoutType
  template_duration_min :: rat
  required_equipment :: "EquipmentKey list"
  fitness_level :: "FitnessLevel list"
  template_blocks :: "TemplateBlock list"

text \<open>\<open>WORKOUT_TEMPLATES\<close>; display names are written without their accents.\<close>

definition hiit_short :: WorkoutTemplate where
  "hiit_short = \<lparr> workout_template_ident = ''hiit_short'',
     workout_template_name = ''HIIT corto (20-25 min)'',
     workout_type = type_hiit, template_duration_min = 23,
     required_equipment = [key_treadmill],
     fitness_level = [beginner, intermediate, advanced],
     template_blocks =
       [\<lparr> block_type = warmup, block_name = ''Calentamiento'',
          details = BasicDetails ''Caminar 5 minutos a ritmo moderado'' (Some intensity_low),
          duration_min = 5 \<rparr>,
        \<lparr> block_type = run, block_name = ''Base aerobica'',
          details = RunDetails 6 continuous, duration_min = 10 \<rparr>,
        \<lparr> block_type = hiit, block_name = ''Intervalos HIIT'',
          details = HIITDetails 60 240 2 [''Correr 12 km/h''], duration_min = 8 \<rparr>] \<rparr>"

definition run_continuous :: WorkoutTemplate where
  "run_continuous = \<lparr> workout_template_ident = ''run_continuous'',
     workout_template_name = ''Cardio continuo (30-40 min)'',
     workout_type = type_run, template_duration_min = 35,
     required_equipment = [key_treadmill],
     fitness_level = [intermediate, advanced],
     template_blocks =
       [\<lparr> block_type = warmup, block_name = ''Calentamiento'',
          details = BasicDetails ''Caminar 5 minutos a ritmo lento'' (Some intensity_low),
          duration_min = 5 \<rparr>,
        \<lparr> block_type = run, block_name = ''Carrera continua'',
          details = RunDetails 8 continuous, duration_min = 25 \<rparr>,
        \<lparr> block_type = cooldown, block_name = ''Enfriamiento'',
          details = BasicDetails ''Caminar y estirar 5 minutos'' (Some intensity_low),
          duration_min = 5 \<rparr>] \<rparr>"

definition strength_bodyweight :: WorkoutTemplate where
  "strength_bodyweight = \<lparr> workout_template_ident = ''strength_bodyweight'',
     workout_template_name = ''Fuerza casa (20-25 min)'',
     workout_type = type_strength, template_duration_min = 23,
     required_equipment = [key_mat],
     fitness_level = [beginner, intermediate, advanced],
     template_blocks =
       [\<lparr> block_type = warmup, block_name = ''Calentamiento dinamico'',
          details = BasicDetails ''Movilidad articular y activacion'' (Some intensity_low),
          duration_min = 3 \<rparr>,
        \<lparr> block_type = strength, block_name = ''Circuito principal'',
          details = StrengthDetails
            [\<lparr> exercise_name = ''Flexiones'', sets = 3, reps = AMRAP,
                duration_sec = None, rest_sec = 90 \<rparr>,
             \<lparr> exercise_name = ''Abdominales'', sets = 3, reps = Count 30,
                duration_sec = None, rest_sec = 60 \<rparr>,
             \<lparr> exercise_name = ''Plancha'', sets = 3, reps = Timed,
                duration_sec = Some 45, rest_sec = 60 \<rparr>],
          duration_min = 15 \<rparr>,
        \<lparr> block_type = run, block_name = ''Cuerda (cardio)'',
          details = RunDetails 0 intervals, duration_min = 5 \<rparr>] \<rparr>"

definition strength_dumbbells :: WorkoutTemplate where
  "strength_dumbbells = \<lparr> workout_template_ident = ''strength_dumbbells'',
     workout_template_name = ''Fuerza con mancuernas'',
     workout_type = type_mixed, template_duration_min = 25,
     required_equipment = [key_dumbbells_kg, key_treadmill],
     fitness_level = [intermediate, advanced],
     template_blocks =
       [\<lparr> block_type = warmup, block_name = ''Calentamiento'',
          details = BasicDetails ''Movilidad con peso corporal'' (Some intensity_low),
          duration_min = 5 \<rparr>,
        \<lparr> block_type = strength, block_name = ''Shadow boxing'',
          details = StrengthDetails
            [\<lparr> exercise_name = ''Shadow boxing con mancuernas'', sets = 3, reps = Timed,
                duration_sec = Some 120, rest_sec = 60 \<rparr>],
          duration_min = 10 \<rparr>,
        \<lparr> block_type = run, block_name = ''Farmer walk en trotadora'',
          details = RunDetails 5 continuous, duration_min = 10 \<rparr>] \<rparr>"

definition beginner_basic :: WorkoutTemplate where
  "beginner_basic = \<lparr> workout_template_ident = ''beginner_basic'',
     workout_template_name = ''Rutina basica principiante'',
     workout_type = type_mixed, template_duration_min = 20,
     required_equipment = [key_mat],
     fitness_level = [beginner],
     template_blocks =
       [\<lparr> block_type = warmup, block_name = ''Calentamiento suave'',
          details = BasicDetails ''Caminar en el lugar y estiramientos suaves''
                      (Some intensity_low),
          duration_min = 5 \<rparr>,
        \<lparr> block_type = strength, block_name = ''Ejercicios basicos'',
          details = StrengthDetails
            [\<lparr> exercise_name = ''Flexiones (modificadas si es necesario)'', sets = 2,
                reps = Count 10, duration_sec = None, rest_sec = 90 \<rparr>,
             \<lparr> exercise_name = ''Sentadillas'', sets = 2, reps = Count 15,
                duration_sec = None, rest_sec = 60 \<rparr>,
             \<lparr> exercise_name = ''Plancha'', sets = 2, reps = Timed,
                duration_sec = Some 20, rest_sec = 60 \<rparr>],
          duration_min = 12 \<rparr>,
        \<lparr> block_type = cooldown, block_name = ''Relajacion'',
          details = BasicDetails ''Estiramientos y respiracion'' (Some intensity_low),
          duration_min = 3 \<rparr>] \<rparr>"

definition WORKOUT_TEMPLATES :: "WorkoutTemplate list" where
  "WORKOUT_TEMPLATES =
     [hiit_short, run_continuous, strength_bodyweight, strength_dumbbells, beginner_basic]"

definition evaluateFitnessLevel :: "PersonalRecords \<Rightarrow> User \<Rightarrow> FitnessLevel" where
  "evaluateFitnessLevel personalRecords user =
     (let isMan = (sex user = male);
          score1 = (if isMan
                    then (if pushups_max personalRecords \<ge> 30 then 2
                          else if pushups_max personalRecords \<ge> 15 then 1 else 0)
                    else (if pushups_max personalRecords \<ge> 20 then 2
                          else if pushups_max personalRecords \<ge> 10 then 1 else 0));
          score2 = (if plank_sec personalRecords \<ge> 90 then 2
                    else if plank_sec personalRecords \<ge> 45 then 1 else 0);
          score3 = (if run_speed_kmh personalRecords \<ge> 10 then 2
                    else if run_speed_kmh personalRecords \<ge> 7 then 1 else 0);
          score4 = (if run_duration_min personalRecords \<ge> 30 then 2
                    else if run_duration_min personalRecords \<ge> 15 then 1 else 0);
          score = score1 + score2 + score3 + (score4 :: nat)
      in if score \<ge> 6 then advanced
         else if score \<ge> 3 then intermediate
         else beginner)"

definition hasEquipment :: "Equipment \<Rightarrow> EquipmentKey \<Rightarrow> bool" where
  "hasEquipment eq reqEquip =
     (case reqEquip of
        key_treadmill \<Rightarrow> treadmill eq
      | key_dumbbells_kg \<Rightarrow> (case dumbbells_kg eq of None \<Rightarrow> False | Some d \<Rightarrow> d \<noteq> 0 \<and> d > 0)
      | key_rope \<Rightarrow> rope eq
      | key_mat \<Rightarrow> mat eq
      | key_resistance_bands \<Rightarrow> resistance_bands eq)"

definition filterWorkoutsByEquipment :: "WorkoutTemplate list \<Rightarrow> Equipment \<Rightarrow> WorkoutTemplate list" where
  "filterWorkoutsByEquipment templates eq =
     filter (\<lambda>template. \<forall>reqEquip \<in> set (required_equipment template). hasEquipment eq reqEquip)
       templates"

text \<open>
  Runtime errors of the source are values: a \<open>ReferenceError\<close> for the read of a name
  that no scope binds, a \<open>TypeError\<close> for a method call on \<open>undefined\<close>.
\<close>

datatype js_error = ReferenceError | TypeError

definition intensityMultiplier :: "FitnessLevel \<Rightarrow> rat" where
  "intensityMultiplier fitnessLevel =
     (case fitnessLevel of beginner \<Rightarrow> 0.8 | intermediate \<Rightarrow> 1.0 | advanced \<Rightarrow> 1.2)"

text \<open>The callback of the inner \<open>map\<close> of \<open>progressWorkout\<close>, over the exercises.\<close>

definition progressExercise :: "PersonalRecords \<Rightarrow> rat \<Rightarrow> StrengthExercise \<Rightarrow> StrengthExercise" where
  "progressExercise personalRecords multiplier exercise =
     (let lname = toLowerCase (exercise_name exercise);
          e1 = (if str_includes lname ''flexion''
                then (let baseReps = pushups_max personalRecords * 0.7
                      in case reps exercise of
                           Count _ \<Rightarrow> exercise \<lparr> reps := Count (max 5 (Math_round (baseReps * multiplier))) \<rparr>
                         | _ \<Rightarrow> exercise)
                else exercise);
          e2 = (if str_includes lname ''plancha''
                then (let baseTime = plank_sec personalRecords * 0.8
                      in case duration_sec e1 of
                           Some d \<Rightarrow> if d \<noteq> 0
                                     then e1 \<lparr> duration_sec := Some (max 15 (Math_round (baseTime * multiplier))) \<rparr>
                                     else e1
                         | None \<Rightarrow> e1)
                else e1);
          e3 = (if str_includes lname ''abdominal''
                then (let baseReps = abs_max personalRecords * 0.7
                      in case reps e2 of
                           Count _ \<Rightarrow> e2 \<lparr> reps := Count (max 10 (Math_round (baseReps * multiplier))) \<rparr>
                         | _ \<Rightarrow> e2)
                else e2)
      in e3)"

text \<open>
  The details of the progressed block. The tests \<open>'exercises' in block.details\<close>,
  \<open>'speed_kmh' in block.details\<close> and \<open>'work_sec' in block.details\<close> are tests of the
  variant. A block of type \<open>strength\<close> whose details are \<open>HIITDetails\<close> also has a field
  \<open>exercises\<close>, a list of strings: on its first element \<open>exercise.name\<close> is \<open>undefined\<close>
  and \<open>exercise.name.toLowerCase()\<close> throws.
\<close>

definition progressDetails :: "PersonalRecords \<Rightarrow> rat \<Rightarrow> TemplateBlock \<Rightarrow> js_error + Details" where
  "progressDetails personalRecords multiplier block =
     (case (block_type block, details block) of
        (strength, StrengthDetails exercises) \<Rightarrow>
          Inr (StrengthDetails (map (progressExercise personalRecords multiplier) exercises))
      | (strength, HIITDetails w r n exercises) \<Rightarrow>
          (if exercises = [] then Inr (HIITDetails w r n []) else Inl TypeError)
      | (run, RunDetails speed rt) \<Rightarrow> Inr (RunDetails (max 5 (speed * multiplier)) rt)
      | (hiit, HIITDetails w r n exercises) \<Rightarrow>
          Inr (HIITDetails (Math_round (w * multiplier)) (Math_round (r / multiplier)) n exercises)
      | (_, d) \<Rightarrow> Inr d)"

text \<open>
  The callback of the outer \<open>map\<close> of \<open>progressWorkout\<close>, over the blocks. The session
  multiplier is computed and not used. After the details, the callback evaluates the
  arguments of \<open>calculateExerciseCalories\<close>; the third, \<open>user.weight_kg\<close>, reads the
  name \<open>user\<close>, which is neither a parameter of \<open>progressWorkout\<close> nor declared in its
  module, so the evaluation throws and the call never takes place.
\<close>

definition progressBlock ::
  "PersonalRecords \<Rightarrow> FitnessLevel \<Rightarrow> rat \<Rightarrow> TemplateBlock \<Rightarrow> js_error + WorkoutBlock" where
  "progressBlock personalRecords fitnessLevel sessionNumber block =
     (let multiplier = intensityMultiplier fitnessLevel;
          sessionMultiplier = 1 + (sessionNumber - 1) * 0.05
      in case progressDetails personalRecords multiplier block of
           Inl err \<Rightarrow> Inl err
         | Inr progressedDetails \<Rightarrow> Inl ReferenceError)"

fun mapBlocks :: "(TemplateBlock \<Rightarrow> js_error + WorkoutBlock) \<Rightarrow> TemplateBlock list
    \<Rightarrow> js_error + WorkoutBlock list" where
  "mapBlocks f [] = Inr []"
| "mapBlocks f (block # rest) =
     (case f block of
        Inl err \<Rightarrow> Inl err
      | Inr progressed \<Rightarrow>
          (case mapBlocks f rest of Inl err \<Rightarrow> Inl err | Inr others \<Rightarrow> Inr (progressed # others)))"

definition progressWorkout ::
  "WorkoutTemplate \<Rightarrow> PersonalRecords \<Rightarrow> FitnessLevel \<Rightarrow> rat \<Rightarrow> js_error + WorkoutBlock list" where
  "progressWorkout template personalRecords fitnessLevel sessionNumber =
     mapBlocks (progressBlock personalRecords fitnessLevel sessionNumber) (template_blocks template)"

datatype PreferredType = cardio | pref_strength | pref_mixed

record WorkoutPreferences =
  preferred_duration :: "rat option"
  preferred_type :: "PreferredType option"
  avoid_high_impact :: bool

definition templateScore :: "WorkoutPreferences \<Rightarrow> WorkoutTemplate \<Rightarrow> rat" where
  "templateScore prefs template =
     (case preferred_duration prefs of
        None \<Rightarrow> 0
      | Some d \<Rightarrow> if d \<noteq> 0 then max 0 (10 - \<bar>template_duration_min template - d\<bar> / 5) else 0)
     + (case preferred_type prefs of
          None \<Rightarrow> 0
        | Some pt \<Rightarrow>
            if (pt = cardio \<and> (workout_type template = type_run \<or> workout_type template = type_hiit))
               \<or> (pt = pref_strength \<and> workout_type template = type_strength)
               \<or> (pt = pref_mixed \<and> workout_type template = type_mixed)
            then 5 else 0)
     - (if avoid_high_impact prefs
           \<and> (workout_type template = type_hiit \<or> workout_type template = type_run)
        then 3 else 0)"

definition selectBestWorkout ::
  "WorkoutTemplate list \<Rightarrow> FitnessLevel \<Rightarrow> WorkoutPreferences \<Rightarrow> WorkoutTemplate option" where
  "selectBestWorkout availableTemplates fitnessLevel prefs =
     (case availableTemplates of
        [] \<Rightarrow> None
      | first # _ \<Rightarrow>
          let levelAppropriate =
                filter (\<lambda>template. fitnessLevel \<in> set (fitness_level template)) availableTemplates
          in if levelAppropriate = [] then Some first
             else (case sort_key (\<lambda>template. - templateScore prefs template) levelAppropriate of
                     [] \<Rightarrow> None
                   | best # _ \<Rightarrow> Some best))"

text \<open>
  \<open>generateWorkoutPlan\<close>. The date comes with its time value, the milliseconds that
  \<open>new Date(date).getTime()\<close> yields. The body of the \<open>try\<close> is
  \<open>generateWorkoutPlan_try\<close>; the \<open>catch\<close> turns every error into \<open>null\<close>.
\<close>

definition generateWorkoutPlan_try ::
  "User \<Rightarrow> PersonalRecords \<Rightarrow> string \<Rightarrow> int \<Rightarrow> WorkoutPreferences option
     \<Rightarrow> js_error + WorkoutPlanDay option" where
  "generateWorkoutPlan_try user personalRecords day dayTime preferences' =
     (let fitnessLevel = evaluateFitnessLevel personalRecords user;
          availableTemplates = filterWorkoutsByEquipment WORKOUT_TEMPLATES (equipment user)
      in if availableTemplates = [] then Inr None
         else
           let prefs = (case preferences' of
                          Some p \<Rightarrow> p
                        | None \<Rightarrow> \<lparr> preferred_duration = None, preferred_type = None,
                                     avoid_high_impact = False \<rparr>)
           in case selectBestWorkout availableTemplates fitnessLevel prefs of
                None \<Rightarrow> Inr None
              | Some selectedTemplate \<Rightarrow>
                  let daysDiff = (dayTime - createdAt user) div 86400000;
                      sessionNumber = daysDiff div 2 + 1
                  in case progressWorkout selectedTemplate personalRecords fitnessLevel
                            (of_int sessionNumber) of
                       Inl err \<Rightarrow> Inl err
                     | Inr progressedBlocks \<Rightarrow>
                         Inr (Some \<lparr> workout_ident = user_ident user @ ''_workout_'' @ day,
                                     workout_user_id = user_ident user,
                                     workout_date = day,
                                     blocks = progressedBlocks,
                                     workout_duration_min = template_duration_min selectedTemplate,
                                     workout_kcal_estimate =
                                       foldl (\<lambda>sum block. sum + kcal_estimate block) 0
                                         progressedBlocks,
                                     workout_completed = False,
                                     rpe = None \<rparr>))"

definition generateWorkoutPlan ::
  "User \<Rightarrow> PersonalRecords \<Rightarrow> string \<Rightarrow> int \<Rightarrow> WorkoutPreferences option
     \<Rightarrow> WorkoutPlanDay option" where
  "generateWorkoutPlan user personalRecords day dayTime preferences' =
     (case generateWorkoutPlan_try user personalRecords day dayTime preferences' of
        Inl err \<Rightarrow> None
      | Inr result \<Rightarrow> result)"

section \<open>Shopping list generator (src/src/utils/shoppingListGenerator.ts)\<close>

record FoodItem =
  food_ident :: string
  food_name :: string
  cost_per_kg :: "rat option"
  seasonal_months :: "nat list option"

datatype StoreKey = supermarket | market | baes

record StoreConfig =
  store_name :: string
  baes_discount :: rat
  seasonal_discount :: rat
  bulk_discount_threshold :: rat
  bulk_discount_pct :: rat
  delivery_cost :: "rat option"

definition STORE_CONFIGS :: "StoreKey \<Rightarrow> StoreConfig" where
  "STORE_CONFIGS storeKey =
     (case storeKey of
        supermarket \<Rightarrow>
          \<lparr> store_name = ''Supermercado'', baes_discount = 0, seasonal_discount = 5,
            bulk_discount_threshold = 2000, bulk_discount_pct = 8, delivery_cost = Some 2000 \<rparr>
      | market \<Rightarrow>
          \<lparr> store_name = ''Feria/Mercado'', baes_discount = 15, seasonal_discount = 20,
            bulk_discount_threshold = 1000, bulk_discount_pct = 12, delivery_cost = Some 0 \<rparr>
      | baes \<Rightarrow>
          \<lparr> store_name = ''Almacen BAES'', baes_discount = 25, seasonal_discount = 10,
            bulk_discount_threshold = 500, bulk_discount_pct = 15, delivery_cost = Some 0 \<rparr>)"

datatype Priority = high | medium | low

record ConsolidatedIngredient =
  ingredient_food_id :: string
  total_grams :: rat
  used_in_recipes :: "string list"
  priority :: Priority

record ShoppingItem =
  item_food_id :: string
  grams_total :: rat
  store_hint :: StoreKey
  item_priority :: Priority
  item_cost_estimate :: "rat option"
  purchased :: bool

text \<open>\<open>store_mode: 'mixed' | 'supermarket' | 'market' | 'baes'\<close>.\<close>

datatype StoreMode = mixed | only StoreKey

record ShoppingList =
  list_ident :: string
  list_user_id :: string
  week_start :: string
  items :: "ShoppingItem list"
  total_cost_estimate :: "rat option"
  store_mode :: StoreMode

definition determineIngredientPriority :: "string \<Rightarrow> rat \<Rightarrow> Priority" where
  "determineIngredientPriority foodId totalGrams =
     (if foodId \<in> set [''chicken_breast'', ''ground_beef_lean'', ''white_fish'', ''eggs'',
                        ''protein_powder''] then high
      else if foodId \<in> set [''mushrooms'', ''onion'', ''zucchini'', ''green_beans'', ''cucumber'']
              \<and> totalGrams \<ge> 500 then medium
      else low)"

text \<open>
  The \<open>Map\<close> of \<open>consolidateIngredients\<close> is the list of its values in insertion
  order. \<open>addIngredient\<close> is the body of the innermost loop: it adds to the entry of the
  food when there is one and appends a new entry otherwise.
\<close>

fun addIngredient ::
  "string \<Rightarrow> rat \<Rightarrow> string \<Rightarrow> ConsolidatedIngredient list \<Rightarrow> ConsolidatedIngredient list" where
  "addIngredient foodId totalGrams recipeId [] =
     [\<lparr> ingredient_food_id = foodId, total_grams = totalGrams, used_in_recipes = [recipeId],
        priority = determineIngredientPriority foodId totalGrams \<rparr>]"
| "addIngredient foodId totalGrams recipeId (existing # rest) =
     (if ingredient_food_id existing = foodId
      then existing \<lparr> total_grams := total_grams existing + totalGrams,
                      used_in_recipes :=
                        (if recipeId \<in> set (used_in_recipes existing)
                         then used_in_recipes existing
                         else used_in_recipes existing @ [recipeId]) \<rparr> # rest
      else existing # addIngredient foodId totalGrams recipeId rest)"

definition consolidateMeal ::
  "Recipe list \<Rightarrow> ConsolidatedIngredient list \<Rightarrow> Meal \<Rightarrow> ConsolidatedIngredient list" where
  "consolidateMeal recipes ingredientMap meal =
     (case find (\<lambda>r. recipe_ident r = recipe_id meal) recipes of
        None \<Rightarrow> ingredientMap
      | Some recipe \<Rightarrow>
          foldl (\<lambda>acc ingredient.
                   addIngredient (food_id ingredient) (grams ingredient * portions meal)
                     (recipe_ident recipe) acc)
            ingredientMap (ingredients recipe))"

definition consolidateIngredients ::
  "MealPlanDay list \<Rightarrow> Recipe list \<Rightarrow> ConsolidatedIngredient list" where
  "consolidateIngredients mealPlans recipes =
     foldl (\<lambda>acc plan. foldl (consolidateMeal recipes) acc (meals plan)) [] mealPlans"

text \<open>A discount label with the percentage its text prints.\<close>

datatype Discount = BAES rat | Temporada rat | Volumen rat

record Pricing =
  original_price :: rat
  final_price :: rat
  applied_discounts :: "Discount list"

definition calculateDiscountedPrice ::
  "rat \<Rightarrow> FoodItem \<Rightarrow> rat \<Rightarrow> StoreConfig \<Rightarrow> User \<Rightarrow> nat \<Rightarrow> Pricing" where
  "calculateDiscountedPrice basePrice foodItem grams' storeConfig user currentMonth =
     (let original = Math_round ((basePrice / 1000) * grams');
          byBaes = (budget_level user = budget_low \<and> baes_discount storeConfig > 0);
          p1 = (if byBaes then original - original * (baes_discount storeConfig / 100)
                else original);
          bySeason = (case seasonal_months foodItem of
                        None \<Rightarrow> False | Some months \<Rightarrow> currentMonth \<in> set months);
          p2 = (if bySeason then p1 - p1 * (seasonal_discount storeConfig / 100) else p1);
          byVolume = (grams' \<ge> bulk_discount_threshold storeConfig);
          p3 = (if byVolume then p2 - p2 * (bulk_discount_pct storeConfig / 100) else p2)
      in \<lparr> original_price = original,
           final_price = Math_round p3,
           applied_discounts =
             (if byBaes then [BAES (baes_discount storeConfig)] else [])
             @ (if bySeason then [Temporada (seasonal_discount storeConfig)] else [])
             @ (if byVolume then [Volumen (bulk_discount_pct storeConfig)] else []) \<rparr>)"

definition availableStores :: "User \<Rightarrow> StoreKey list" where
  "availableStores user =
     (if budget_level user = budget_low then [supermarket, market, baes]
      else [supermarket, market])"

text \<open>
  The comparison of the prices of an ingredient over the stores. The best price starts
  at \<open>Infinity\<close>, here \<open>None\<close>, below which every price is.
\<close>

fun bestStoreLoop ::
  "(StoreKey \<Rightarrow> Pricing) \<Rightarrow> StoreKey list \<Rightarrow> StoreKey \<times> rat option \<times> rat
     \<Rightarrow> StoreKey \<times> rat option \<times> rat" where
  "bestStoreLoop pricingAt [] best = best"
| "bestStoreLoop pricingAt (storeKey # rest) best =
     (let pricing = pricingAt storeKey
      in if (case fst (snd best) of None \<Rightarrow> True | Some bestPrice \<Rightarrow> final_price pricing < bestPrice)
         then bestStoreLoop pricingAt rest
                (storeKey, Some (final_price pricing),
                 original_price pricing - final_price pricing)
         else bestStoreLoop pricingAt rest best)"

text \<open>
  The store, price and savings that the body of the outer loop of
  \<open>optimizeStoreDistribution\<close> settles on for an ingredient; \<open>None\<close> is its \<open>continue\<close>,
  taken when the food is unknown or has no cost per kilogram (absent or zero). The best
  price is finite after the comparison, as there are always at least two stores.
\<close>

definition assignStore ::
  "FoodItem list \<Rightarrow> User \<Rightarrow> nat \<Rightarrow> ConsolidatedIngredient \<Rightarrow> (StoreKey \<times> rat \<times> rat) option" where
  "assignStore foodItems user currentMonth ingredient =
     (case find (\<lambda>f. food_ident f = ingredient_food_id ingredient) foodItems of
        None \<Rightarrow> None
      | Some foodItem \<Rightarrow>
          (case cost_per_kg foodItem of
             None \<Rightarrow> None
           | Some cost \<Rightarrow>
               if cost = 0 then None
               else
                 (case bestStoreLoop
                         (\<lambda>storeKey. calculateDiscountedPrice cost foodItem (total_grams ingredient)
                                       (STORE_CONFIGS storeKey) user currentMonth)
                         (availableStores user) (market, None, 0) of
                    (bestStore, Some bestPrice, bestSavings) \<Rightarrow>
                      Some (bestStore, bestPrice, bestSavings)
                  | (_, None, _) \<Rightarrow> None)))"

record Optimization =
  distribution :: "StoreKey \<Rightarrow> ConsolidatedIngredient list"
  cost_breakdown :: "StoreKey \<Rightarrow> rat"
  total_cost :: rat
  total_savings :: rat

fun distributeLoop ::
  "FoodItem list \<Rightarrow> User \<Rightarrow> nat \<Rightarrow> ConsolidatedIngredient list \<Rightarrow> Optimization
     \<Rightarrow> Optimization" where
  "distributeLoop foodItems user currentMonth [] acc = acc"
| "distributeLoop foodItems user currentMonth (ingredient # rest) acc =
     (case assignStore foodItems user currentMonth ingredient of
        None \<Rightarrow> distributeLoop foodItems user currentMonth rest acc
      | Some (bestStore, bestPrice, bestSavings) \<Rightarrow>
          distributeLoop foodItems user currentMonth rest
            (acc \<lparr> distribution :=
                      (distribution acc)(bestStore := distribution acc bestStore @ [ingredient]),
                    cost_breakdown :=
                      (cost_breakdown acc)(bestStore := cost_breakdown acc bestStore + bestPrice),
                    total_cost := total_cost acc + bestPrice,
                    total_savings := total_savings acc + bestSavings \<rparr>))"

fun deliveryLoop :: "StoreKey list \<Rightarrow> Optimization \<Rightarrow> Optimization" where
  "deliveryLoop [] acc = acc"
| "deliveryLoop (storeKey # rest) acc =
     (if distribution acc storeKey \<noteq> []
      then (case delivery_cost (STORE_CONFIGS storeKey) of
              None \<Rightarrow> deliveryLoop rest acc
            | Some cost \<Rightarrow>
                if cost = 0 then deliveryLoop rest acc
                else deliveryLoop rest
                       (acc \<lparr> cost_breakdown :=
                                 (cost_breakdown acc)(storeKey := cost_breakdown acc storeKey + cost),
                               total_cost := total_cost acc + cost \<rparr>))
      else deliveryLoop rest acc)"

text \<open>
  \<open>optimizeStoreDistribution\<close>, with the month of the clock as an argument. The two
  objects keyed by store are functions, read on the available stores only.
\<close>

definition optimizeStoreDistribution ::
  "ConsolidatedIngredient list \<Rightarrow> FoodItem list \<Rightarrow> User \<Rightarrow> nat \<Rightarrow> Optimization" where
  "optimizeStoreDistribution consolidatedIngredients foodItems user currentMonth =
     deliveryLoop (availableStores user)
       (distributeLoop foodItems user currentMonth consolidatedIngredients
          \<lparr> distribution = (\<lambda>_. []), cost_breakdown = (\<lambda>_. 0), total_cost = 0,
            total_savings = 0 \<rparr>)"

definition shoppingItem ::
  "FoodItem list \<Rightarrow> User \<Rightarrow> nat \<Rightarrow> StoreKey \<Rightarrow> ConsolidatedIngredient \<Rightarrow> ShoppingItem option" where
  "shoppingItem foodItems user currentMonth storeKey ingredient =
     (case find (\<lambda>f. food_ident f = ingredient_food_id ingredient) foodItems of
        None \<Rightarrow> None
      | Some foodItem \<Rightarrow>
          let pricing = calculateDiscountedPrice
                          (case cost_per_kg foodItem of None \<Rightarrow> 0 | Some cost \<Rightarrow> cost)
                          foodItem (total_grams ingredient) (STORE_CONFIGS storeKey) user
                          currentMonth
          in Some \<lparr> item_food_id = ingredient_food_id ingredient,
                    grams_total = total_grams ingredient,
                    store_hint = storeKey,
                    item_priority = priority ingredient,
                    item_cost_estimate = Some (final_price pricing),
                    purchased = False \<rparr>)"

text \<open>
  \<open>generateWeeklyShoppingList\<close>, with the month of the clock as an argument. Nothing in
  the body of its \<open>try\<close> throws on well-typed arguments.
\<close>

definition generateWeeklyShoppingList ::
  "nat \<Rightarrow> User \<Rightarrow> MealPlanDay list \<Rightarrow> Recipe list \<Rightarrow> FoodItem list \<Rightarrow> string \<Rightarrow> ShoppingList" where
  "generateWeeklyShoppingList currentMonth user mealPlans recipes foodItems weekStart =
     (let consolidatedIngredients = consolidateIngredients mealPlans recipes;
          optimization = optimizeStoreDistribution consolidatedIngredients foodItems user
                           currentMonth;
          shoppingItems =
            concat (map (\<lambda>storeKey.
                      List.map_filter (shoppingItem foodItems user currentMonth storeKey)
                        (distribution optimization storeKey))
                    (availableStores user));
          storeCosts =
            sort_key (\<lambda>storeKey. - cost_breakdown optimization storeKey)
              (filter (\<lambda>storeKey. cost_breakdown optimization storeKey > 0)
                 (availableStores user));
          mode = (case storeCosts of
                    [storeKey] \<Rightarrow> only storeKey
                  | _ \<Rightarrow> if budget_level user = budget_low then only baes else mixed)
      in \<lparr> list_ident = user_ident user @ ''_shopping_'' @ weekStart,
           list_user_id = user_ident user,
           week_start = weekStart,
           items = shoppingItems,
           total_cost_estimate = Some (total_cost optimization),
           store_mode = mode \<rparr>)"


text \<open>
  Readings of the results: the store, the price and the savings of an ingredient (no
  store, and zero, for an ingredient that the loop passes over), the delivery cost of a
  store (zero when it defines none) and the cost estimate of an item (zero when absent).
\<close>

definition assignedStore ::
  "FoodItem list \<Rightarrow> User \<Rightarrow> nat \<Rightarrow> ConsolidatedIngredient \<Rightarrow> StoreKey option" where
  "assignedStore foodItems user currentMonth ingredient =
     map_option fst (assignStore foodItems user currentMonth ingredient)"

definition assignedPrice ::
  "FoodItem list \<Rightarrow> User \<Rightarrow> nat \<Rightarrow> ConsolidatedIngredient \<Rightarrow> rat" where
  "assignedPrice foodItems user currentMonth ingredient =
     (case assignStore foodItems user currentMonth ingredient of
        None \<Rightarrow> 0 | Some (bestStore, bestPrice, bestSavings) \<Rightarrow> bestPrice)"

definition assignedSavings ::
  "FoodItem list \<Rightarrow> User \<Rightarrow> nat \<Rightarrow> ConsolidatedIngredient \<Rightarrow> rat" where
  "assignedSavings foodItems user currentMonth ingredient =
     (case assignStore foodItems user currentMonth ingredient of
        None \<Rightarrow> 0 | Some (bestStore, bestPrice, bestSavings) \<Rightarrow> bestSavings)"

definition deliveryCostOf :: "StoreKey \<Rightarrow> rat" where
  "deliveryCostOf storeKey =
     (case delivery_cost (STORE_CONFIGS storeKey) of None \<Rightarrow> 0 | Some cost \<Rightarrow> cost)"

definition itemCost :: "ShoppingItem \<Rightarrow> rat" where
  "itemCost item = (case item_cost_estimate item of None \<Rightarrow> 0 | Some cost \<Rightarrow> cost)"

section \<open>Sample data\<close>

text \<open>
  The default value of the \<open>activityFactor\<close> parameters, and concrete users, recipes
  and plans on which the theorems below are instantiated.
\<close>

definition defaultActivityFactor :: rat where
  "defaultActivityFactor = 1.55"

definition user_ana :: User where
  "user_ana = \<lparr> user_ident = ''ana'', sex = female, age = 28, height_cm = 165,
     weight_kg = 70, goal_weight_kg = 65, budget_level = budget_medium,
     preferences = \<lparr> no_oil = False, no_sugar = False, no_fried = False,
                     dislikes = [], likes = [] \<rparr>,
     health = \<lparr> ldl = None \<rparr>,
     equipment = \<lparr> treadmill = False, dumbbells_kg = None, rope = False, mat = True,
                   resistance_bands = False \<rparr>,
     createdAt = 0 \<rparr>"

definition mkRecipe :: "string \<Rightarrow> MealType \<Rightarrow> RecipeTag list \<Rightarrow> rat \<Rightarrow> rat \<Rightarrow> Recipe" where
  "mkRecipe i c ts k p = \<lparr> recipe_ident = i, recipe_name = i, category = c, tags = ts,
     ingredients = [\<lparr> food_id = ''oats'', grams = 50 \<rparr>],
     per_portion = \<lparr> kcal = k, protein = p, fat = 10, carbs = 40, fiber = 5 \<rparr>,
     prep_time_min = 10, cooking_time_min = 10, cost_estimate = None \<rparr>"

definition mkPlan :: "rat \<Rightarrow> rat \<Rightarrow> Meal list \<Rightarrow> MealPlanDay" where
  "mkPlan k p ms = \<lparr> plan_ident = ''ana_2024-01-01'', user_id = ''ana'', date = ''2024-01-01'',
     meals = ms, totals = \<lparr> kcal = k, protein = p, fat = 50, carbs = 200, fiber = 20 \<rparr>,
     adherence = None, plan_notes = [] \<rparr>"

definition mkMeal :: "MealType \<Rightarrow> string \<Rightarrow> bool \<Rightarrow> Meal" where
  "mkMeal t i c = \<lparr> meal_type = t, recipe_id = i, portions = 1, time_scheduled = ''12:00'',
     completed = c \<rparr>"

definition records_base :: PersonalRecords where
  "records_base = \<lparr> pushups_max = 20, abs_max = 30, plank_sec = 60, run_speed_kmh = 8,
     run_duration_min = 20 \<rparr>"

definition mkMeasurement :: "int \<Rightarrow> rat \<Rightarrow> Measurement" where
  "mkMeasurement d w = \<lparr> measurement_date = d, measurement_weight_kg = w \<rparr>"

definition user_bea :: User where
  "user_bea = user_ana \<lparr> user_ident := ''bea'', goal_weight_kg := 75 \<rparr>"

definition user_low :: User where
  "user_low = user_ana \<lparr> user_ident := ''caro'', budget_level := budget_low \<rparr>"

definition sample_foods :: "FoodItem list" where
  "sample_foods =
     [\<lparr> food_ident = ''chicken_breast'', food_name = ''Pechuga de pollo'',
        cost_per_kg = Some 6000, seasonal_months = None \<rparr>,
      \<lparr> food_ident = ''zucchini'', food_name = ''Zapallo italiano'',
        cost_per_kg = Some 1500, seasonal_months = Some [1, 2, 3] \<rparr>,
      \<lparr> food_ident = ''salt'', food_name = ''Sal'',
        cost_per_kg = None, seasonal_months = None \<rparr>]"

definition sample_recipes :: "Recipe list" where
  "sample_recipes =
     [\<lparr> recipe_ident = ''pollo_plancha'', recipe_name = ''Pollo a la plancha'',
        category = almuerzo, tags = [sin_aceite, alta_prote],
        ingredients = [\<lparr> food_id = ''chicken_breast'', grams = 200 \<rparr>,
                       \<lparr> food_id = ''zucchini'', grams = 150 \<rparr>,
                       \<lparr> food_id = ''salt'', grams = 2 \<rparr>],
        per_portion = \<lparr> kcal = 420, protein = 48, fat = 8, carbs = 12, fiber = 3 \<rparr>,
        prep_time_min = 10, cooking_time_min = 15, cost_estimate = Some 1400 \<rparr>]"

definition sample_week :: "MealPlanDay list" where
  "sample_week =
     replicate 6 (mkPlan 1900 120 [mkMeal almuerzo ''pollo_plancha'' False])"

section \<open>Facts about rounding\<close>

lemma Math_round_near: "\<bar>Math_round x - x\<bar> \<le> 1 / 2"
  unfolding Math_round_def by linarith

lemma Math_round_of_int: "Math_round (of_int k) = of_int k"
proof -
  have "\<lfloor>rat_of_int k + 1 / 2\<rfloor> = k" by linarith
  then show ?thesis by (simp add: Math_round_def)
qed

lemma Math_round_mono: "x \<le> y \<Longrightarrow> Math_round x \<le> Math_round y"
  unfolding Math_round_def by (simp add: floor_mono)

lemma Math_round_nonneg: "0 \<le> x \<Longrightarrow> 0 \<le> Math_round x"
  unfolding Math_round_def by simp

lemma Math_round_is_int: "\<exists>k. Math_round x = of_int k"
  unfolding Math_round_def by blast

section \<open>Metrics calculator: properties\<close>

lemma range_target_ge_1200: "1200 \<le> range_target (calculateKcalRange t g c s)"
  by (cases s) (simp_all add: calculateKcalRange_def Let_def max_def)

text \<open>
  C2. For every sex, weight, height and age, \<open>calculateBMR_Mifflin\<close> is the
  Mifflin-St Jeor value \<open>10 w + 6.25 h - 5 a + 5\<close> (male) or \<open>10 w + 6.25 h - 5 a - 161\<close>
  (female), rounded to the nearest integer; for a female of 70 kg, 165 cm and 28 years
  it is exactly 1430.
\<close>

theorem calculateBMR_Mifflin_formula:
  "calculateBMR_Mifflin male w h a = Math_round (10 * w + 6.25 * h - 5 * a + 5)
   \<and> calculateBMR_Mifflin female w h a = Math_round (10 * w + 6.25 * h - 5 * a - 161)
   \<and> calculateBMR_Mifflin female 70 165 28 = 1430"
proof -
  have "Math_round (10 * 70 + 6.25 * 165 - 5 * 28 - 161) = 1430"
    by code_simp
  then show ?thesis
    by (simp add: calculateBMR_Mifflin_def)
qed

text \<open>
  C1. For every TDEE, goal weight, current weight and sex, the three fields of the
  record returned by \<open>calculateKcalRange\<close> (target, min and max) are at least the
  safety floor of the sex: 1500 kcal for male, 1200 kcal for female.
\<close>

theorem calculateKcalRange_floor:
  fixes expenditure goal cur :: rat and sx :: Sex
  defines "r \<equiv> calculateKcalRange expenditure goal cur sx"
  defines "floor_kcal \<equiv> (case sx of male \<Rightarrow> 1500 | female \<Rightarrow> 1200)"
  shows "floor_kcal \<le> range_target r \<and> floor_kcal \<le> range_min r \<and> floor_kcal \<le> range_max r"
proof -
  define deficit_pct :: rat where
    "deficit_pct = (if goal - cur < - 5 then 0.225
       else if goal - cur < 0 then 0.15
       else if goal - cur > 5 then - 0.125
       else if goal - cur > 0 then - 0.075 else 0)"
  define fl :: rat where "fl = (if sx = male then 1500 else 1200)"
  define s where "s = max (Math_round (expenditure * (1 - deficit_pct))) fl"
  have fl_eq: "floor_kcal = fl"
    by (cases sx) (simp_all add: floor_kcal_def fl_def)
  have r_eq: "r = \<lparr> range_min = max (Math_round (s * 0.95)) fl,
                   range_max = Math_round (s * 1.05), range_target = s \<rparr>"
    by (simp add: r_def calculateKcalRange_def Let_def s_def fl_def deficit_pct_def)
  have fl_pos: "0 \<le> fl" by (simp add: fl_def)
  have s_ge: "fl \<le> s" by (simp add: s_def)
  have fl_int: "\<exists>k. fl = of_int k"
  proof (cases sx)
    case male
    then have "fl = of_int 1500" by (simp add: fl_def)
    then show ?thesis by blast
  next
    case female
    then have "fl = of_int 1200" by (simp add: fl_def)
    then show ?thesis by blast
  qed
  have "\<exists>k. s = of_int k"
    using Math_round_is_int [of "expenditure * (1 - deficit_pct)"] fl_int
    by (auto simp: s_def max_def)
  then obtain k where k: "s = of_int k" by blast
  have "s \<le> s * 1.05" using s_ge fl_pos by simp
  then have "Math_round s \<le> Math_round (s * 1.05)" by (rule Math_round_mono)
  then have "s \<le> Math_round (s * 1.05)" by (simp add: k Math_round_of_int)
  with s_ge show ?thesis by (simp add: r_eq fl_eq)
qed

text \<open>
  C10. For every calorie target, goal weight and protein preference, the fat grams
  returned by \<open>calculateMacros\<close> are 0.6 g per kg of goal weight (rounded), the
  carbohydrate grams are the calories that remain after protein (4 kcal per g) and fat
  (9 kcal per g) divided by 4 (rounded) and floored at 0, so they are never negative;
  and whenever the carbohydrate grams are positive, the calories of the split,
  \<open>4 protein + 9 fat + 4 carbs\<close>, are within 4 kcal of the calorie target.
\<close>

theorem calculateMacros_reconcile:
  fixes kcal_target goal :: rat and pref :: ProteinPreference
  defines "m \<equiv> calculateMacros kcal_target goal pref"
  shows "fat_g m = Math_round (goal * 0.6)
    \<and> carbs_g m = max 0 (Math_round ((kcal_target - protein_g m * 4 - fat_g m * 9) / 4))
    \<and> 0 \<le> carbs_g m
    \<and> (carbs_g m > 0
         \<longrightarrow> \<bar>protein_g m * 4 + fat_g m * 9 + carbs_g m * 4 - kcal_target\<bar> \<le> 4)"
proof -
  define rem where "rem = kcal_target - protein_g m * 4 - fat_g m * 9"
  have fat: "fat_g m = Math_round (goal * 0.6)"
    by (simp add: m_def calculateMacros_def Let_def FAT_G_PER_KG_min_def)
  have carbs: "carbs_g m = max 0 (Math_round (rem / 4))"
    by (simp add: rem_def m_def calculateMacros_def Let_def KCAL_PER_G_protein_def
        KCAL_PER_G_fat_def KCAL_PER_G_carbs_def)
  have nonneg: "0 \<le> carbs_g m" by (simp add: carbs)
  have bound: "\<bar>protein_g m * 4 + fat_g m * 9 + carbs_g m * 4 - kcal_target\<bar> \<le> 4"
    if carbs_pos: "carbs_g m > 0"
  proof -
    from carbs carbs_pos have c: "carbs_g m = Math_round (rem / 4)"
      by (simp add: max_def split: if_splits)
    have "\<bar>Math_round (rem / 4) - rem / 4\<bar> \<le> 1 / 2" by (rule Math_round_near)
    then have "\<bar>carbs_g m * 4 - rem\<bar> \<le> 2" using c by linarith
    then show ?thesis unfolding rem_def by linarith
  qed
  from fat carbs nonneg bound show ?thesis by (simp add: rem_def)
qed

text \<open>
  The theorem at 2000 kcal, a goal of 70 kg and the medium preference (133 g of protein,
  42 g of fat, 273 g of carbohydrates: 2002 kcal), and at 500 kcal, where nothing
  remains for carbohydrates and the floor gives 0.
\<close>

theorem calculateMacros_reconcile_witness:
  "carbs_g (calculateMacros 2000 70 protein_medium) > 0
   \<and> \<bar>protein_g (calculateMacros 2000 70 protein_medium) * 4
       + fat_g (calculateMacros 2000 70 protein_medium) * 9
       + carbs_g (calculateMacros 2000 70 protein_medium) * 4 - 2000\<bar> \<le> 4
   \<and> Math_round ((500 - protein_g (calculateMacros 500 70 protein_medium) * 4
                    - fat_g (calculateMacros 500 70 protein_medium) * 9) / 4) < 0
   \<and> carbs_g (calculateMacros 500 70 protein_medium) = 0"
proof -
  have h: "carbs_g (calculateMacros 2000 70 protein_medium) > 0"
    by code_simp
  have neg: "Math_round ((500 - protein_g (calculateMacros 500 70 protein_medium) * 4
                    - fat_g (calculateMacros 500 70 protein_medium) * 9) / 4) < 0"
    by code_simp
  have "carbs_g (calculateMacros 500 70 protein_medium)
          = max 0 (Math_round ((500 - protein_g (calculateMacros 500 70 protein_medium) * 4
                    - fat_g (calculateMacros 500 70 protein_medium) * 9) / 4))"
    using calculateMacros_reconcile [of 500 70 protein_medium] by blast
  with neg have zero: "carbs_g (calculateMacros 500 70 protein_medium) = 0"
    by (simp add: max_def)
  from calculateMacros_reconcile [of 2000 70 protein_medium] h neg zero
  show ?thesis by blast
qed

section \<open>Meal plan generator: properties\<close>

lemma sort_key_head_least:
  fixes f :: "'a \<Rightarrow> 'k::linorder"
  assumes "xs \<noteq> []"
  shows "\<exists>b rest. sort_key f xs = b # rest \<and> b \<in> set xs \<and> (\<forall>x \<in> set xs. f b \<le> f x)"
proof (cases "sort_key f xs")
  case Nil
  then have "set (sort_key f xs) = {}" by simp
  with assms show ?thesis by simp
next
  case (Cons b rest)
  have srt: "sorted (map f (b # rest))"
    using sorted_sort_key [of f xs] Cons by simp
  have st: "set (b # rest) = set xs"
    using set_sort [of f xs] Cons by simp
  from srt have "\<forall>x \<in> set (b # rest). f b \<le> f x" by auto
  with st Cons show ?thesis by auto
qed


text \<open>
  C5 (as amended). For every non-empty candidate list, slot calorie target, tolerance
  and rules, \<open>selectRecipeForCalories\<close> returns a candidate of the pool (the
  candidates within the tolerance of the calorie target when there are any, the whole
  list otherwise) whose score no candidate of the pool exceeds and which, among the
  candidates of the pool with the same score, has the smallest absolute calorie
  deviation. The score of \<open>scoreRecipe\<close> is the sum of 3 for the \<open>budget\<close> tag under
  budget priority, 2 for the \<open>colesterol_friendly\<close> tag under the cholesterol rule, 2 for
  the \<open>alta_prote\<close> tag under the protein rule, 1 for the \<open>batch_cooking\<close> tag under the
  batch-cooking rule, 1 for the \<open>rapida\<close> tag and 1 for an ingredient that contains a
  liked word, less 2 for an estimated cost above 1500 under budget priority. It does not
  depend on the recipe's nutrition per portion: it has no calorie-deviation term.
\<close>

theorem selectRecipeForCalories_best:
  fixes availableRecipes :: "Recipe list" and targetKcal tolerance :: rat
    and rules :: PersonalizationRules and r' :: Recipe and n :: Nutrition
  defines "inRange \<equiv> filter (inCalorieRange targetKcal tolerance) availableRecipes"
  defines "pool \<equiv> (if inRange \<noteq> [] then inRange else availableRecipes)"
  assumes nonempty: "availableRecipes \<noteq> []"
  shows "(\<exists>best. selectRecipeForCalories availableRecipes targetKcal rules tolerance = Some best
           \<and> best \<in> set pool
           \<and> (\<forall>r \<in> set pool. scoreRecipe r rules \<le> scoreRecipe best rules
                 \<and> (scoreRecipe r rules = scoreRecipe best rules
                      \<longrightarrow> kcalDiff targetKcal best \<le> kcalDiff targetKcal r)))
         \<and> scoreRecipe r' rules
             = 3 * of_bool (budget_priority rules \<and> budget \<in> set (tags r'))
               + 2 * of_bool (cholesterol_friendly rules \<and> colesterol_friendly \<in> set (tags r'))
               + 2 * of_bool (high_protein rules \<and> alta_prote \<in> set (tags r'))
               + of_bool (rule_batch_cooking rules \<and> batch_cooking \<in> set (tags r'))
               + of_bool (rapida \<in> set (tags r'))
               + of_bool (\<exists>liked \<in> set (preferred_ingredients rules).
                            \<exists>ing \<in> set (ingredients r').
                              str_includes (food_id ing) (toLowerCase liked))
               - 2 * of_bool (budget_priority rules
                              \<and> (\<exists>cost. cost_estimate r' = Some cost \<and> cost > 1500))
         \<and> scoreRecipe (r'\<lparr>per_portion := n\<rparr>) rules = scoreRecipe r' rules"
proof -
  let ?key = "\<lambda>recipe. (- scoreRecipe recipe rules, kcalDiff targetKcal recipe)"
  have pool_ne: "pool \<noteq> []" using nonempty by (simp add: pool_def)
  from sort_key_head_least [OF pool_ne, of ?key]
  obtain b rest where b: "sort_key ?key pool = b # rest" "b \<in> set pool"
    and least: "\<forall>x \<in> set pool. ?key b \<le> ?key x" by blast
  have "selectRecipeForCalories availableRecipes targetKcal rules tolerance
          = (case sort_key ?key pool of [] \<Rightarrow> None | best # _ \<Rightarrow> Some best)"
    using nonempty
    by (simp add: selectRecipeForCalories_def Let_def pool_def inRange_def)
  then have sel: "selectRecipeForCalories availableRecipes targetKcal rules tolerance = Some b"
    by (simp add: b(1))
  have opt: "\<forall>r \<in> set pool. scoreRecipe r rules \<le> scoreRecipe b rules
                 \<and> (scoreRecipe r rules = scoreRecipe b rules
                      \<longrightarrow> kcalDiff targetKcal b \<le> kcalDiff targetKcal r)"
    using least by (auto simp: less_eq_prod_def)
  have cost: "(case cost_estimate r' of None \<Rightarrow> False | Some c \<Rightarrow> c \<noteq> 0 \<and> c > 1500)
                \<longleftrightarrow> (\<exists>cost. cost_estimate r' = Some cost \<and> cost > 1500)"
    by (cases "cost_estimate r'") auto
  have score: "scoreRecipe r' rules
             = 3 * of_bool (budget_priority rules \<and> budget \<in> set (tags r'))
               + 2 * of_bool (cholesterol_friendly rules \<and> colesterol_friendly \<in> set (tags r'))
               + 2 * of_bool (high_protein rules \<and> alta_prote \<in> set (tags r'))
               + of_bool (rule_batch_cooking rules \<and> batch_cooking \<in> set (tags r'))
               + of_bool (rapida \<in> set (tags r'))
               + of_bool (\<exists>liked \<in> set (preferred_ingredients rules).
                            \<exists>ing \<in> set (ingredients r').
                              str_includes (food_id ing) (toLowerCase liked))
               - 2 * of_bool (budget_priority rules
                              \<and> (\<exists>cost. cost_estimate r' = Some cost \<and> cost > 1500))"
  proof -
    have ite: "\<And>P (c :: rat). (if P then c else 0) = c * of_bool P" by simp
    show ?thesis unfolding scoreRecipe_def cost ite by simp
  qed
  have indep: "scoreRecipe (r'\<lparr>per_portion := n\<rparr>) rules = scoreRecipe r' rules"
    by (simp add: scoreRecipe_def)
  from sel b(2) opt have "\<exists>best.
      selectRecipeForCalories availableRecipes targetKcal rules tolerance = Some best
      \<and> best \<in> set pool
      \<and> (\<forall>r \<in> set pool. scoreRecipe r rules \<le> scoreRecipe best rules
            \<and> (scoreRecipe r rules = scoreRecipe best rules
                 \<longrightarrow> kcalDiff targetKcal best \<le> kcalDiff targetKcal r))"
    by blast
  with score indep show ?thesis by blast
qed

text \<open>
  The theorem at two lunch candidates within the tolerance of the slot target 659, for
  the sample user, who is losing weight: the high-protein recipe scores 2, the quick one
  1, and the high-protein recipe is selected although the quick one is closer to the
  target.
\<close>

theorem selectRecipeForCalories_best_witness:
  "[mkRecipe ''pollo'' almuerzo [alta_prote] 650 45, mkRecipe ''pasta'' almuerzo [rapida] 660 20] \<noteq> []
   \<and> scoreRecipe (mkRecipe ''pollo'' almuerzo [alta_prote] 650 45)
       (generatePersonalizationRules user_ana) = 2
   \<and> scoreRecipe (mkRecipe ''pasta'' almuerzo [rapida] 660 20)
       (generatePersonalizationRules user_ana) = 1
   \<and> selectRecipeForCalories
        [mkRecipe ''pollo'' almuerzo [alta_prote] 650 45,
         mkRecipe ''pasta'' almuerzo [rapida] 660 20]
        659 (generatePersonalizationRules user_ana) 0.15
      = Some (mkRecipe ''pollo'' almuerzo [alta_prote] 650 45)"
proof -
  let ?pollo = "mkRecipe ''pollo'' almuerzo [alta_prote] 650 45"
  let ?pasta = "mkRecipe ''pasta'' almuerzo [rapida] 660 20"
  let ?rules = "generatePersonalizationRules user_ana"
  let ?xs = "[?pollo, ?pasta]"
  have h: "?xs \<noteq> []" by simp
  have pool: "(if filter (inCalorieRange 659 0.15) ?xs \<noteq> []
               then filter (inCalorieRange 659 0.15) ?xs else ?xs) = ?xs"
    by code_simp
  have flags: "high_protein ?rules" "\<not> budget_priority ?rules" "\<not> cholesterol_friendly ?rules"
    "\<not> rule_batch_cooking ?rules" "preferred_ingredients ?rules = []"
    by (simp_all add: generatePersonalizationRules_def user_ana_def)
  note inst = selectRecipeForCalories_best [OF h, of 659 ?rules "0.15"]
  have s_pollo: "scoreRecipe ?pollo ?rules = 2"
    using inst [of ?pollo] flags by (simp add: mkRecipe_def)
  have s_pasta: "scoreRecipe ?pasta ?rules = 1"
    using inst [of ?pasta] flags by (simp add: mkRecipe_def)
  from inst obtain best where
    sel: "selectRecipeForCalories ?xs 659 ?rules 0.15 = Some best"
    and mem: "best \<in> set ?xs"
    and opt: "\<forall>r \<in> set ?xs. scoreRecipe r ?rules \<le> scoreRecipe best ?rules"
    unfolding pool by blast
  from opt have "scoreRecipe ?pollo ?rules \<le> scoreRecipe best ?rules" by simp
  with s_pollo s_pasta have "best \<noteq> ?pasta" by auto
  with mem have "best = ?pollo" by simp
  with sel h s_pollo s_pasta show ?thesis by simp
qed

text \<open>
  C5 as stated fails: two recipes that differ only in their calories, one on the slot
  target (relative deviation 0) and one at ten times the target (relative deviation 9),
  have the same score; and of two candidates outside the tolerance, the one 900 percent
  off the target is selected over the one 25 percent off, on its \<open>rapida\<close> bonus alone.
\<close>

theorem scoreRecipe_counterexample:
  "scoreRecipe (mkRecipe ''cerca'' almuerzo [] 400 30) (generatePersonalizationRules user_ana)
     = scoreRecipe (mkRecipe ''lejos'' almuerzo [] 4000 30) (generatePersonalizationRules user_ana)
   \<and> \<bar>kcal (per_portion (mkRecipe ''cerca'' almuerzo [] 400 30)) - 400\<bar> / 400 = 0
   \<and> \<bar>kcal (per_portion (mkRecipe ''lejos'' almuerzo [] 4000 30)) - 400\<bar> / 400 = 9
   \<and> selectRecipeForCalories
        [mkRecipe ''lejos'' almuerzo [rapida] 4000 30, mkRecipe ''cerca'' almuerzo [] 500 30]
        400 (generatePersonalizationRules user_ana) 0.15
      = Some (mkRecipe ''lejos'' almuerzo [rapida] 4000 30)"
  by code_simp

text \<open>
  C4 (as amended). For every user with a non-negative goal weight and every plan day
  whose calorie and protein totals are whole numbers (as the totals of every generated
  day are, \<open>generateDailyMealPlan_whole_totals\<close> below) and whose total protein is below
  120 percent of the protein target, \<open>validateMealPlan\<close> reports the day valid exactly
  when the total calories are within 15 percent of the calorie target and the total
  protein is at least 80 percent of the protein target; the day is valid exactly when
  the list of issues is empty; and the list of meals of the plan has no influence on the
  result.
\<close>

theorem validateMealPlan_thresholds:
  fixes plan :: MealPlanDay and user :: User and af :: rat and ms :: "Meal list"
  defines "kt \<equiv> range_target (kcal_range (calculateAllMetrics user af))"
  defines "pt \<equiv> protein_g (macros (calculateAllMetrics user af))"
  assumes goal: "0 \<le> goal_weight_kg user"
    and whole: "kcal (totals plan) \<in> \<int>" "protein (totals plan) \<in> \<int>"
    and not_over: "protein (totals plan) < 1.20 * pt"
  shows "(fst (validateMealPlan plan user af)
            \<longleftrightarrow> \<bar>kcal (totals plan) - kt\<bar> \<le> 0.15 * kt
                \<and> 0.80 * pt \<le> protein (totals plan))
         \<and> (fst (validateMealPlan plan user af) \<longleftrightarrow> snd (validateMealPlan plan user af) = [])
         \<and> validateMealPlan (plan\<lparr>meals := ms\<rparr>) user af = validateMealPlan plan user af"
proof -
  have "1200 \<le> kt"
    unfolding kt_def calculateAllMetrics_def Let_def by (simp add: range_target_ge_1200)
  then have kt_pos: "0 < kt" by linarith
  have "pt = Math_round (goal_weight_kg user * ((PROTEIN_G_PER_KG_min + PROTEIN_G_PER_KG_max) / 2))"
    unfolding pt_def calculateAllMetrics_def calculateMacros_def Let_def by simp
  moreover have "0 \<le> goal_weight_kg user * ((PROTEIN_G_PER_KG_min + PROTEIN_G_PER_KG_max) / 2)"
    using goal by (simp add: PROTEIN_G_PER_KG_min_def PROTEIN_G_PER_KG_max_def)
  ultimately have pt_nonneg: "0 \<le> pt" by (simp add: Math_round_nonneg)
  have k: "\<bar>kcal (totals plan) - kt\<bar> / kt > 0.15 \<longleftrightarrow> \<not> \<bar>kcal (totals plan) - kt\<bar> \<le> 0.15 * kt"
    using kt_pos by (simp add: field_simps not_le)
  define proteinOver where "proteinOver \<longleftrightarrow>
     (if pt = 0 then protein (totals plan) \<noteq> 0
      else \<bar>protein (totals plan) - pt\<bar> / pt > 0.20)"
  have p: "proteinOver \<longleftrightarrow> \<not> 0.80 * pt \<le> protein (totals plan)"
  proof (cases "pt = 0")
    case True
    then show ?thesis using not_over by (auto simp: proteinOver_def)
  next
    case False
    then have pt_pos: "0 < pt" using pt_nonneg by simp
    have "\<bar>protein (totals plan) - pt\<bar> / pt > 0.20
            \<longleftrightarrow> \<bar>protein (totals plan) - pt\<bar> > 0.20 * pt"
      using pt_pos by (simp add: field_simps)
    also have "\<dots> \<longleftrightarrow> \<not> 0.80 * pt \<le> protein (totals plan)"
      using not_over by (auto simp: abs_if)
    finally show ?thesis using False by (simp add: proteinOver_def)
  qed
  have v: "validateMealPlan plan user af =
      (let issues = (if \<bar>kcal (totals plan) - kt\<bar> / kt > 0.15
                     then [Calorias_fuera_de_rango (kcal (totals plan)) kt] else [])
                  @ (if proteinOver
                     then [Proteina_insuficiente (protein (totals plan)) pt] else [])
       in (issues = [], issues))"
    unfolding validateMealPlan_def kt_def pt_def proteinOver_def Let_def by simp
  have a: "fst (validateMealPlan plan user af)
            \<longleftrightarrow> \<bar>kcal (totals plan) - kt\<bar> \<le> 0.15 * kt
                \<and> 0.80 * pt \<le> protein (totals plan)"
    unfolding v Let_def using k p by auto
  have b: "fst (validateMealPlan plan user af) \<longleftrightarrow> snd (validateMealPlan plan user af) = []"
    unfolding v Let_def by simp
  have c: "validateMealPlan (plan\<lparr>meals := ms\<rparr>) user af = validateMealPlan plan user af"
    by (simp add: validateMealPlan_def Let_def)
  from a b c show ?thesis by blast
qed

text \<open>
  The theorem at the sample user (calorie target 1884, protein target 124): a plan of
  1900 kcal and 120 g of protein is valid, one of 1900 kcal and 98 g of protein (79
  percent of the target) is not.
\<close>

theorem validateMealPlan_thresholds_witness:
  "0 \<le> goal_weight_kg user_ana
   \<and> kcal (totals (mkPlan 1900 120 [])) \<in> \<int> \<and> protein (totals (mkPlan 1900 120 [])) \<in> \<int>
   \<and> protein (totals (mkPlan 1900 120 []))
       < 1.20 * protein_g (macros (calculateAllMetrics user_ana defaultActivityFactor))
   \<and> fst (validateMealPlan (mkPlan 1900 120 []) user_ana defaultActivityFactor)
   \<and> \<not> fst (validateMealPlan (mkPlan 1900 98 []) user_ana defaultActivityFactor)"
proof -
  let ?pt = "protein_g (macros (calculateAllMetrics user_ana defaultActivityFactor))"
  let ?kt = "range_target (kcal_range (calculateAllMetrics user_ana defaultActivityFactor))"
  have h1: "0 \<le> goal_weight_kg user_ana" by (simp add: user_ana_def)
  have h2: "kcal (totals (mkPlan 1900 120 [])) \<in> \<int>" "protein (totals (mkPlan 1900 120 [])) \<in> \<int>"
    by (simp_all add: mkPlan_def)
  have h3: "protein (totals (mkPlan 1900 120 [])) < 1.20 * ?pt"
    by code_simp
  have g2: "kcal (totals (mkPlan 1900 98 [])) \<in> \<int>" "protein (totals (mkPlan 1900 98 [])) \<in> \<int>"
    by (simp_all add: mkPlan_def)
  have g3: "protein (totals (mkPlan 1900 98 [])) < 1.20 * ?pt"
    by code_simp
  have ok: "\<bar>kcal (totals (mkPlan 1900 120 [])) - ?kt\<bar> \<le> 0.15 * ?kt
        \<and> 0.80 * ?pt \<le> protein (totals (mkPlan 1900 120 []))"
    by code_simp
  have low: "\<not> 0.80 * ?pt \<le> protein (totals (mkPlan 1900 98 []))"
    by code_simp
  from validateMealPlan_thresholds [OF h1 h2 h3] ok
  have valid: "fst (validateMealPlan (mkPlan 1900 120 []) user_ana defaultActivityFactor)"
    by blast
  from validateMealPlan_thresholds [OF h1 g2 g3] low
  have invalid: "\<not> fst (validateMealPlan (mkPlan 1900 98 []) user_ana defaultActivityFactor)"
    by blast
  from h1 h2 h3 valid invalid show ?thesis by blast
qed

text \<open>
  C4 as stated fails at the sample user, on days with whole-number totals: a day of
  three meals with 2261 kcal (20 percent above the target 1884, inside the claimed 30
  percent) and protein on target is flagged invalid; a day of a single meal with calories
  and protein on target is reported valid; and a day of two meals with calories on target
  and 161 g of protein (30 percent above the target 124, so not below 80 percent of it)
  is flagged invalid.
\<close>

theorem validateMealPlan_counterexample:
  "\<bar>2261 - 1884\<bar> \<le> 0.30 * (1884::rat) \<and> 0.80 * 124 \<le> (124::rat)
   \<and> range_target (kcal_range (calculateAllMetrics user_ana defaultActivityFactor)) = 1884
   \<and> protein_g (macros (calculateAllMetrics user_ana defaultActivityFactor)) = 124
   \<and> \<not> fst (validateMealPlan
              (mkPlan 2261 124 [mkMeal desayuno ''a'' False, mkMeal almuerzo ''b'' False,
                                  mkMeal cena ''c'' False]) user_ana defaultActivityFactor)
   \<and> length [mkMeal cena ''c'' False] < 2
   \<and> fst (validateMealPlan (mkPlan 1884 124 [mkMeal cena ''c'' False]) user_ana
            defaultActivityFactor)
   \<and> 0.80 * 124 \<le> (161::rat)
   \<and> \<not> fst (validateMealPlan
              (mkPlan 1884 161 [mkMeal almuerzo ''b'' False, mkMeal cena ''c'' False])
              user_ana defaultActivityFactor)"
  by code_simp



lemma mealLoop_eq:
  "mealLoop recipes rules t es acc =
     (fst acc @ map fst (List.map_filter (planSlot recipes rules t) es),
      foldl addNutrition (snd acc) (map snd (List.map_filter (planSlot recipes rules t) es)))"
proof (induction es arbitrary: acc)
  case Nil
  then show ?case by (simp add: List.map_filter_simps)
next
  case (Cons e es)
  show ?case
  proof (cases "planSlot recipes rules t e")
    case None
    then show ?thesis using Cons.IH [of acc] by (simp add: List.map_filter_simps)
  next
    case (Some ma)
    then show ?thesis
      using Cons.IH [of "(fst acc @ [fst ma], addNutrition (snd acc) (snd ma))"]
      by (cases ma) (simp add: List.map_filter_simps)
  qed
qed

lemma foldl_addNutrition:
  "kcal (foldl addNutrition z xs) = kcal z + sum_list (map kcal xs)"
  "protein (foldl addNutrition z xs) = protein z + sum_list (map protein xs)"
  "fat (foldl addNutrition z xs) = fat z + sum_list (map fat xs)"
  "carbs (foldl addNutrition z xs) = carbs z + sum_list (map carbs xs)"
  "fiber (foldl addNutrition z xs) = fiber z + sum_list (map fiber xs)"
  by (induction xs arbitrary: z; simp add: addNutrition_def)+


lemma Math_round_Ints: "Math_round x \<in> \<int>"
  unfolding Math_round_def by simp

lemma planSlot_whole:
  assumes "planSlot recipes rules t entry = Some (m, a)"
  shows "kcal a \<in> \<int> \<and> protein a \<in> \<int>"
  using assms
  by (auto simp: planSlot_def adjustPortionsForCalories_def Let_def Math_round_Ints
      split: option.splits)

lemma sum_list_Ints:
  fixes f :: "'a \<Rightarrow> rat"
  assumes "\<forall>x \<in> set xs. f x \<in> \<int>"
  shows "sum_list (map f xs) \<in> \<int>"
  using assms by (induction xs) auto

lemma generateDailyMealPlan_whole_totals:
  assumes "generateDailyMealPlan user recipes day af = Some d"
  shows "kcal (totals d) \<in> \<int> \<and> protein (totals d) \<in> \<int>"
proof -
  let ?rules = "generatePersonalizationRules user"
  let ?t = "range_target (kcal_range (calculateAllMetrics user af))"
  let ?slots = "List.map_filter (planSlot recipes ?rules ?t)
                  (kcal_distribution (selectDayTemplate user ?rules))"
  from assms have "totals d = foldl addNutrition zeroNutrition (map snd ?slots)"
    by (auto simp: generateDailyMealPlan_def Let_def mealLoop_eq split: if_splits)
  then have tot: "kcal (totals d) = sum_list (map kcal (map snd ?slots))"
    "protein (totals d) = sum_list (map protein (map snd ?slots))"
    by (simp_all add: foldl_addNutrition zeroNutrition_def)
  have "\<forall>a \<in> set (map snd ?slots). kcal a \<in> \<int> \<and> protein a \<in> \<int>"
    by (auto simp: List.map_filter_def dest: planSlot_whole)
  then show ?thesis
    unfolding tot by (simp add: sum_list_Ints)
qed

lemma mealTargetKcal_ge_60:
  assumes "entry \<in> set (kcal_distribution (selectDayTemplate user rules))"
  shows "60 \<le> Math_round (range_target (kcal_range (calculateAllMetrics user af)) * snd entry)"
proof -
  let ?t = "range_target (kcal_range (calculateAllMetrics user af))"
  have t: "1200 \<le> ?t"
    unfolding calculateAllMetrics_def Let_def by (simp add: range_target_ge_1200)
  have "selectDayTemplate user rules \<in> {normal_day, fasting_morning, simple_3_meals}"
    by (simp add: selectDayTemplate_def DAY_TEMPLATES_def normal_day_def fasting_morning_def
        simple_3_meals_def)
  with assms have "1 / 20 \<le> snd entry"
    by (auto simp: normal_day_def fasting_morning_def simple_3_meals_def)
  with t have "1200 * (1 / 20) \<le> ?t * snd entry"
    by (intro mult_mono) simp_all
  then have "of_int 60 \<le> ?t * snd entry" by simp
  from Math_round_mono [OF this]
  have "Math_round (of_int 60) \<le> Math_round (?t * snd entry)" .
  moreover have "Math_round (of_int 60) = 60"
    using Math_round_of_int [of 60] by simp
  ultimately show ?thesis by simp
qed



section \<open>Progress tracking engine: properties\<close>

lemma weeklyChange_two_snapshots:
  assumes order: "measurements = [e, l] \<or> measurements = [l, e]"
    and week: "measurement_date l = measurement_date e + 7 * 86400000"
    and differ: "measurement_weight_kg e \<noteq> measurement_weight_kg l"
    and nonzero: "measurement_weight_kg e \<noteq> 0"
  shows "calculateWeeklyWeightChange measurements 1 =
           Finite (Math_round (((measurement_weight_kg l - measurement_weight_kg e)
                                  / measurement_weight_kg e) * 100 * 10) / 10)"
proof -
  have lt: "measurement_date e < measurement_date l" using week by simp
  have srt: "sort_key measurement_date measurements = [e, l]"
    using order lt by (auto simp: insort_key.simps)
  have len: "\<not> length measurements < 2" using order by auto
  have tgt: "measurement_date l - 1 * 7 * 86400000 = measurement_date e"
    using week by simp
  show ?thesis
    unfolding calculateWeeklyWeightChange_def Let_def
    using len differ nonzero by (simp add: srt tgt week)
qed

lemma rounded_pct_le:
  fixes x :: rat
  assumes "x \<le> - 1.1"
  shows "Math_round (x * 10) / 10 \<le> - 1.1"
proof -
  have "x * 10 \<le> rat_of_int (- 11)" using assms by simp
  from Math_round_mono [OF this] have "Math_round (x * 10) \<le> Math_round (rat_of_int (- 11))" .
  also have "Math_round (rat_of_int (- 11)) = rat_of_int (- 11)" by (rule Math_round_of_int)
  finally show ?thesis by simp
qed

text \<open>
  C3 (as amended). For every user and every input, \<open>analyzeWeeklyProgress\<close> classifies
  the trend as \<open>fast_loss\<close> exactly when the weekly change it reports, the change rounded
  to one decimal, is below -1 percent, and its suggestions include the rule
  \<open>weight_loss_too_fast\<close> exactly when, in addition, the user's goal weight is below the
  user's weight. For a history of two snapshots one week apart (in either order) whose
  earlier weight is positive and whose latest weight is at least 1.1 percent below it,
  the reported change is at most -1.1 percent, so the trend is \<open>fast_loss\<close>.
\<close>

theorem analyzeWeeklyProgress_fast_loss:
  fixes user :: User and e l :: Measurement
  defines "a \<equiv> (\<lambda>measurements mealPlans workouts currentRecords previousRecords af.
     analyzeWeeklyProgress user measurements mealPlans workouts currentRecords previousRecords af)"
  shows "(weight_trend (a measurements mealPlans workouts currentRecords previousRecords af)
            = fast_loss
          \<longleftrightarrow> isBelow (weight_change_pct
                (a measurements mealPlans workouts currentRecords previousRecords af)) (- 1))
       \<and> (''weight_loss_too_fast''
            \<in> set (map rule_id (suggestions
                  (a measurements mealPlans workouts currentRecords previousRecords af)))
          \<longleftrightarrow> isBelow (weight_change_pct
                (a measurements mealPlans workouts currentRecords previousRecords af)) (- 1)
              \<and> goal_weight_kg user < weight_kg user)
       \<and> ((measurements = [e, l] \<or> measurements = [l, e])
            \<and> measurement_date l = measurement_date e + 7 * 86400000
            \<and> 0 < measurement_weight_kg e
            \<and> measurement_weight_kg l \<le> 0.989 * measurement_weight_kg e
          \<longrightarrow> (\<exists>r. weight_change_pct
                     (a measurements mealPlans workouts currentRecords previousRecords af)
                   = Finite r \<and> r \<le> - 1.1)
              \<and> weight_trend (a measurements mealPlans workouts currentRecords previousRecords af)
                  = fast_loss)"
proof -
  define pct where "pct = calculateWeeklyWeightChange measurements 1"
  have pct_field: "weight_change_pct
      (a measurements mealPlans workouts currentRecords previousRecords af) = pct"
    unfolding a_def analyzeWeeklyProgress_def Let_def pct_def by simp
  have override: "\<not> (isAtLeast pct (- 0.25) \<and> isBelow pct 0)" if "isBelow pct (- 1)"
    using that by (cases pct) auto
  have trend: "weight_trend (a measurements mealPlans workouts currentRecords previousRecords af)
                 = fast_loss \<longleftrightarrow> isBelow pct (- 1)"
  proof (cases "isBelow pct (- 1)")
    case True
    with override show ?thesis
      unfolding a_def analyzeWeeklyProgress_def Let_def pct_def [symmetric] by simp
  next
    case False
    then show ?thesis
      unfolding a_def analyzeWeeklyProgress_def Let_def pct_def [symmetric] by simp
  qed
  have "''weight_loss_too_fast''
            \<in> set (map rule_id (suggestions
                  (a measurements mealPlans workouts currentRecords previousRecords af)))
          \<longleftrightarrow> weight_trend
                (a measurements mealPlans workouts currentRecords previousRecords af) = fast_loss
              \<and> goal_weight_kg user < weight_kg user"
    unfolding a_def analyzeWeeklyProgress_def Let_def by auto
  with trend have sugg: "''weight_loss_too_fast''
            \<in> set (map rule_id (suggestions
                  (a measurements mealPlans workouts currentRecords previousRecords af)))
          \<longleftrightarrow> isBelow pct (- 1) \<and> goal_weight_kg user < weight_kg user"
    by simp
  have two: "(\<exists>r. pct = Finite r \<and> r \<le> - 1.1)
             \<and> weight_trend (a measurements mealPlans workouts currentRecords previousRecords af)
                  = fast_loss"
    if order: "measurements = [e, l] \<or> measurements = [l, e]"
      and week: "measurement_date l = measurement_date e + 7 * 86400000"
      and pos: "0 < measurement_weight_kg e"
      and drop: "measurement_weight_kg l \<le> 0.989 * measurement_weight_kg e"
  proof -
    let ?we = "measurement_weight_kg e" and ?wl = "measurement_weight_kg l"
    have differ: "?we \<noteq> ?wl" using drop pos by auto
    have nonzero: "?we \<noteq> 0" using pos by simp
    have eq: "pct = Finite (Math_round (((?wl - ?we) / ?we) * 100 * 10) / 10)"
      unfolding pct_def by (rule weeklyChange_two_snapshots [OF order week differ nonzero])
    have "((?wl - ?we) / ?we) * 100 \<le> - 1.1"
      using pos drop by (simp add: field_simps)
    then have le: "Math_round (((?wl - ?we) / ?we) * 100 * 10) / 10 \<le> - 1.1"
      by (rule rounded_pct_le)
    then have "isBelow pct (- 1)" by (simp add: eq)
    with trend eq le show ?thesis by blast
  qed
  from trend sugg two show ?thesis unfolding pct_field by blast
qed

text \<open>
  The theorem at the sample user (goal 65 kg, weight 70 kg) and a drop from 100 kg to
  95 kg, the later snapshot listed first.
\<close>

theorem analyzeWeeklyProgress_fast_loss_witness:
  "([mkMeasurement (7 * 86400000) 95, mkMeasurement 0 100]
       = [mkMeasurement 0 100, mkMeasurement (7 * 86400000) 95]
     \<or> [mkMeasurement (7 * 86400000) 95, mkMeasurement 0 100]
       = [mkMeasurement (7 * 86400000) 95, mkMeasurement 0 100])
   \<and> measurement_date (mkMeasurement (7 * 86400000) 95)
       = measurement_date (mkMeasurement 0 100) + 7 * 86400000
   \<and> 0 < measurement_weight_kg (mkMeasurement 0 100)
   \<and> measurement_weight_kg (mkMeasurement (7 * 86400000) 95)
       \<le> 0.989 * measurement_weight_kg (mkMeasurement 0 100)
   \<and> weight_trend (analyzeWeeklyProgress user_ana
         [mkMeasurement (7 * 86400000) 95, mkMeasurement 0 100] [] [] records_base None
         defaultActivityFactor) = fast_loss
   \<and> ''weight_loss_too_fast'' \<in> set (map rule_id (suggestions (analyzeWeeklyProgress user_ana
         [mkMeasurement (7 * 86400000) 95, mkMeasurement 0 100] [] [] records_base None
         defaultActivityFactor)))"
proof -
  let ?e = "mkMeasurement 0 100" and ?l = "mkMeasurement (7 * 86400000) 95"
  let ?a = "analyzeWeeklyProgress user_ana [?l, ?e] [] [] records_base None defaultActivityFactor"
  have h1: "[?l, ?e] = [?e, ?l] \<or> [?l, ?e] = [?l, ?e]" by simp
  have h2: "measurement_date ?l = measurement_date ?e + 7 * 86400000"
    by (simp add: mkMeasurement_def)
  have h3: "0 < measurement_weight_kg ?e" by (simp add: mkMeasurement_def)
  have h4: "measurement_weight_kg ?l \<le> 0.989 * measurement_weight_kg ?e"
    by (simp add: mkMeasurement_def)
  have losing: "goal_weight_kg user_ana < weight_kg user_ana"
    by (simp add: user_ana_def)
  note inst = analyzeWeeklyProgress_fast_loss [of user_ana "[?l, ?e]" "[]" "[]" records_base None
      defaultActivityFactor ?e ?l]
  from inst h1 h2 h3 h4 have trend: "weight_trend ?a = fast_loss" by blast
  with inst have "isBelow (weight_change_pct ?a) (- 1)" by blast
  with inst losing have "''weight_loss_too_fast'' \<in> set (map rule_id (suggestions ?a))"
    by blast
  with trend h1 h2 h3 h4 show ?thesis by blast
qed

text \<open>
  C3 as stated fails: a drop from 100 kg to 98.96 kg in a week (1.04 percent, more than 1
  percent) is classified \<open>normal_loss\<close> and draws no rapid-loss suggestion; and for a user
  whose goal weight (75 kg) is above the current weight, a drop of 5 percent is classified
  \<open>fast_loss\<close> but draws no rapid-loss suggestion either.
\<close>

theorem analyzeWeeklyProgress_counterexample:
  "measurement_weight_kg (mkMeasurement (7 * 86400000) 98.96)
     < 0.99 * measurement_weight_kg (mkMeasurement 0 100)
   \<and> weight_trend (analyzeWeeklyProgress user_ana
         [mkMeasurement 0 100, mkMeasurement (7 * 86400000) 98.96] [] [] records_base None
         defaultActivityFactor) = normal_loss
   \<and> ''weight_loss_too_fast'' \<notin> set (map rule_id (suggestions (analyzeWeeklyProgress user_ana
         [mkMeasurement 0 100, mkMeasurement (7 * 86400000) 98.96] [] [] records_base None
         defaultActivityFactor)))
   \<and> weight_trend (analyzeWeeklyProgress user_bea
         [mkMeasurement 0 100, mkMeasurement (7 * 86400000) 95] [] [] records_base None
         defaultActivityFactor) = fast_loss
   \<and> ''weight_loss_too_fast'' \<notin> set (map rule_id (suggestions (analyzeWeeklyProgress user_bea
         [mkMeasurement 0 100, mkMeasurement (7 * 86400000) 95] [] [] records_base None
         defaultActivityFactor)))"
  by code_simp

section \<open>Workout plan generator: properties\<close>

lemma progressBlock_basic:
  "details block = BasicDetails descr i
     \<Longrightarrow> progressBlock personalRecords fitnessLevel sessionNumber block = Inl ReferenceError"
  by (cases "block_type block") (simp_all add: progressBlock_def progressDetails_def)

lemma progressBlock_fails:
  "\<exists>err. progressBlock personalRecords fitnessLevel sessionNumber block = Inl err"
  by (cases "progressDetails personalRecords (intensityMultiplier fitnessLevel) block")
     (simp_all add: progressBlock_def)

lemma progressWorkout_fails:
  assumes "template_blocks template \<noteq> []"
  shows "\<exists>err. progressWorkout template personalRecords fitnessLevel sessionNumber = Inl err"
proof -
  from assms obtain block rest where "template_blocks template = block # rest"
    by (cases "template_blocks template") auto
  moreover obtain err where
    "progressBlock personalRecords fitnessLevel sessionNumber block = Inl err"
    using progressBlock_fails by blast
  ultimately show ?thesis by (simp add: progressWorkout_def)
qed

lemma progressWorkout_templates:
  assumes "template \<in> set WORKOUT_TEMPLATES"
  shows "progressWorkout template personalRecords fitnessLevel sessionNumber = Inl ReferenceError"
proof -
  from assms have "\<exists>descr i rest. template_blocks template
      = \<lparr> block_type = warmup, block_name = ''Calentamiento'', details = BasicDetails descr i,
          duration_min = 5 \<rparr> # rest
    \<or> template_blocks template
      = \<lparr> block_type = warmup, block_name = ''Calentamiento dinamico'',
          details = BasicDetails descr i, duration_min = 3 \<rparr> # rest
    \<or> template_blocks template
      = \<lparr> block_type = warmup, block_name = ''Calentamiento suave'',
          details = BasicDetails descr i, duration_min = 5 \<rparr> # rest"
    unfolding WORKOUT_TEMPLATES_def
    by (auto simp: hiit_short_def run_continuous_def strength_bodyweight_def
        strength_dumbbells_def beginner_basic_def)
  then obtain block rest descr i where
    "template_blocks template = block # rest" "details block = BasicDetails descr i"
    by fastforce
  then show ?thesis
    by (simp add: progressWorkout_def progressBlock_basic)
qed

lemma selectBestWorkout_member:
  assumes "availableTemplates \<noteq> []"
  shows "\<exists>t. selectBestWorkout availableTemplates fitnessLevel prefs = Some t
             \<and> t \<in> set availableTemplates"
proof -
  from assms obtain first rest where av: "availableTemplates = first # rest"
    by (cases availableTemplates) auto
  let ?lvl = "filter (\<lambda>template. fitnessLevel \<in> set (fitness_level template)) availableTemplates"
  show ?thesis
  proof (cases "?lvl = []")
    case True
    then have "selectBestWorkout availableTemplates fitnessLevel prefs = Some first"
      unfolding selectBestWorkout_def av Let_def by simp
    then show ?thesis by (simp add: av)
  next
    case False
    from sort_key_head_least [OF False, of "\<lambda>template. - templateScore prefs template"]
    obtain b rest' where b: "sort_key (\<lambda>template. - templateScore prefs template) ?lvl = b # rest'"
      "b \<in> set ?lvl" by blast
    have "selectBestWorkout availableTemplates fitnessLevel prefs
            = (case sort_key (\<lambda>template. - templateScore prefs template) ?lvl of
                 [] \<Rightarrow> None | best # _ \<Rightarrow> Some best)"
      using False unfolding selectBestWorkout_def av Let_def by simp
    then have "selectBestWorkout availableTemplates fitnessLevel prefs = Some b"
      by (simp add: b(1))
    moreover have "b \<in> set availableTemplates" using b(2) by simp
    ultimately show ?thesis by blast
  qed
qed

text \<open>
  C8. For every user, personal records, date and preferences for which at least one
  template passes the equipment filter, the body of \<open>generateWorkoutPlan\<close> ends in the
  \<open>ReferenceError\<close> of the calorie step of \<open>progressWorkout\<close>, the \<open>catch\<close> handler
  takes it, and \<open>generateWorkoutPlan\<close> returns \<open>null\<close>: no plan is produced and no
  error leaves the function.
\<close>

theorem generateWorkoutPlan_always_null:
  assumes eligible: "filterWorkoutsByEquipment WORKOUT_TEMPLATES (equipment user) \<noteq> []"
  shows "generateWorkoutPlan_try user personalRecords day dayTime prefs = Inl ReferenceError
         \<and> generateWorkoutPlan user personalRecords day dayTime prefs = None"
proof -
  let ?av = "filterWorkoutsByEquipment WORKOUT_TEMPLATES (equipment user)"
  let ?level = "evaluateFitnessLevel personalRecords user"
  let ?p = "case prefs of Some p \<Rightarrow> p
            | None \<Rightarrow> \<lparr> preferred_duration = None, preferred_type = None,
                        avoid_high_impact = False \<rparr>"
  from selectBestWorkout_member [OF eligible, of ?level ?p]
  obtain t where t: "selectBestWorkout ?av ?level ?p = Some t" "t \<in> set ?av" by blast
  from t(2) have "t \<in> set WORKOUT_TEMPLATES"
    by (simp add: filterWorkoutsByEquipment_def)
  then have fails: "\<And>n. progressWorkout t personalRecords ?level n = Inl ReferenceError"
    by (rule progressWorkout_templates)
  have body: "generateWorkoutPlan_try user personalRecords day dayTime prefs = Inl ReferenceError"
    unfolding generateWorkoutPlan_try_def Let_def
    using eligible by (simp add: t(1) fails)
  then show ?thesis by (simp add: generateWorkoutPlan_def)
qed

text \<open>
  The theorem at the sample user, who owns a mat.
\<close>

theorem generateWorkoutPlan_always_null_witness:
  "filterWorkoutsByEquipment WORKOUT_TEMPLATES (equipment user_ana) \<noteq> []
   \<and> generateWorkoutPlan_try user_ana records_base ''2024-01-05'' 345600000 None
       = Inl ReferenceError
   \<and> generateWorkoutPlan user_ana records_base ''2024-01-05'' 345600000 None = None"
proof -
  have h: "filterWorkoutsByEquipment WORKOUT_TEMPLATES (equipment user_ana) \<noteq> []"
    by code_simp
  from generateWorkoutPlan_always_null [OF h, of records_base "''2024-01-05''" 345600000 None] h
  show ?thesis by blast
qed

text \<open>
  C7 fails on the code. At the template \<open>beginner_basic\<close>, push-up maximum 20, plank
  maximum 60 s, level beginner and session number 3, \<open>progressWorkout\<close> returns no
  blocks: it ends in the \<open>ReferenceError\<close> of the calorie step. The details computed
  before that step use the level multiplier 0.8 alone (push-ups 11, plank 38 s), whereas
  the multiplier compounded with the session multiplier \<open>1 + 0.05 (3 - 1)\<close> would give
  12 and 42 s.
\<close>

theorem progressWorkout_session_ignored:
  "progressWorkout beginner_basic records_base beginner 3 = Inl ReferenceError
   \<and> progressDetails records_base (intensityMultiplier beginner) (template_blocks beginner_basic ! 1)
       = Inr (StrengthDetails
           [\<lparr> exercise_name = ''Flexiones (modificadas si es necesario)'', sets = 2,
               reps = Count 11, duration_sec = None, rest_sec = 90 \<rparr>,
            \<lparr> exercise_name = ''Sentadillas'', sets = 2, reps = Count 15,
               duration_sec = None, rest_sec = 60 \<rparr>,
            \<lparr> exercise_name = ''Plancha'', sets = 2, reps = Timed,
               duration_sec = Some 38, rest_sec = 60 \<rparr>])
   \<and> max 5 (Math_round (pushups_max records_base * 0.7 * (0.8 * (1 + 0.05 * (3 - 1))))) = 12
   \<and> max 15 (Math_round (plank_sec records_base * 0.8 * (0.8 * (1 + 0.05 * (3 - 1))))) = 42"
  by code_simp

section \<open>Shopping list generator: properties\<close>

lemma bestStoreLoop_inv:
  assumes "case fst (snd best) of
             None \<Rightarrow> T = {}
           | Some p \<Rightarrow> p = final_price (f (fst best))
                       \<and> snd (snd best) = original_price (f (fst best)) - p
                       \<and> fst best \<in> T \<and> (\<forall>st \<in> T. p \<le> final_price (f st))"
    and "stores \<noteq> [] \<or> fst (snd best) \<noteq> None"
  shows "\<exists>s p. bestStoreLoop f stores best = (s, Some p, original_price (f s) - p)
           \<and> p = final_price (f s) \<and> s \<in> T \<union> set stores
           \<and> (\<forall>st \<in> T \<union> set stores. p \<le> final_price (f st))"
  using assms
proof (induction stores arbitrary: best T)
  case Nil
  then obtain s p sv where best: "best = (s, Some p, sv)"
    by (cases best) auto
  with Nil show ?case by auto
next
  case (Cons storeKey rest)
  let ?new = "(storeKey, Some (final_price (f storeKey)),
               original_price (f storeKey) - final_price (f storeKey))"
  show ?case
  proof (cases "case fst (snd best) of None \<Rightarrow> True
                | Some bestPrice \<Rightarrow> final_price (f storeKey) < bestPrice")
    case True
    have inv: "case fst (snd ?new) of
             None \<Rightarrow> insert storeKey T = {}
           | Some p \<Rightarrow> p = final_price (f (fst ?new))
                       \<and> snd (snd ?new) = original_price (f (fst ?new)) - p
                       \<and> fst ?new \<in> insert storeKey T
                       \<and> (\<forall>st \<in> insert storeKey T. p \<le> final_price (f st))"
      using True Cons.prems(1) by (auto split: option.splits)
    from Cons.IH [OF inv]
    obtain s p where "bestStoreLoop f rest ?new = (s, Some p, original_price (f s) - p)"
      "p = final_price (f s)" "s \<in> insert storeKey T \<union> set rest"
      "\<forall>st \<in> insert storeKey T \<union> set rest. p \<le> final_price (f st)"
      by auto
    moreover have "bestStoreLoop f (storeKey # rest) best = bestStoreLoop f rest ?new"
      using True by (simp add: Let_def)
    ultimately show ?thesis by auto
  next
    case False
    then obtain bp where bp: "fst (snd best) = Some bp" "\<not> final_price (f storeKey) < bp"
      by (auto split: option.splits)
    have inv: "case fst (snd best) of
             None \<Rightarrow> insert storeKey T = {}
           | Some p \<Rightarrow> p = final_price (f (fst best))
                       \<and> snd (snd best) = original_price (f (fst best)) - p
                       \<and> fst best \<in> insert storeKey T
                       \<and> (\<forall>st \<in> insert storeKey T. p \<le> final_price (f st))"
      using bp Cons.prems(1) by auto
    from Cons.IH [OF inv] bp(1)
    obtain s p where "bestStoreLoop f rest best = (s, Some p, original_price (f s) - p)"
      "p = final_price (f s)" "s \<in> insert storeKey T \<union> set rest"
      "\<forall>st \<in> insert storeKey T \<union> set rest. p \<le> final_price (f st)"
      by auto
    moreover have "bestStoreLoop f (storeKey # rest) best = bestStoreLoop f rest best"
      using False by (simp add: Let_def)
    ultimately show ?thesis by auto
  qed
qed

lemma bestStoreLoop_start:
  assumes "stores \<noteq> []"
  shows "\<exists>s p. bestStoreLoop f stores (start, None, startSavings) = (s, Some p, original_price (f s) - p)
           \<and> p = final_price (f s) \<and> s \<in> set stores
           \<and> (\<forall>st \<in> set stores. p \<le> final_price (f st))"
  using bestStoreLoop_inv [where best = "(start, None, startSavings)" and T = "{}" and f = f and stores = stores] assms by simp

lemma availableStores_nonempty: "availableStores user \<noteq> []"
  by (simp add: availableStores_def)

lemma availableStores_distinct: "distinct (availableStores user)"
  by (simp add: availableStores_def)

lemma assignStore_Some:
  assumes "assignStore foodItems user currentMonth ingredient = Some (s, p, sv)"
  shows "s \<in> set (availableStores user)
         \<and> (\<exists>foodItem cost.
               find (\<lambda>f. food_ident f = ingredient_food_id ingredient) foodItems = Some foodItem
               \<and> cost_per_kg foodItem = Some cost \<and> cost \<noteq> 0
               \<and> p = final_price (calculateDiscountedPrice cost foodItem (total_grams ingredient)
                                    (STORE_CONFIGS s) user currentMonth)
               \<and> sv = original_price (calculateDiscountedPrice cost foodItem
                                         (total_grams ingredient) (STORE_CONFIGS s) user
                                         currentMonth) - p
               \<and> (\<forall>st \<in> set (availableStores user).
                     p \<le> final_price (calculateDiscountedPrice cost foodItem
                                         (total_grams ingredient) (STORE_CONFIGS st) user
                                         currentMonth)))"
proof -
  from assms obtain foodItem cost where
    food: "find (\<lambda>f. food_ident f = ingredient_food_id ingredient) foodItems = Some foodItem"
    and cost: "cost_per_kg foodItem = Some cost" "cost \<noteq> 0"
    by (auto simp: assignStore_def split: option.splits if_splits)
  let ?f = "\<lambda>storeKey. calculateDiscountedPrice cost foodItem (total_grams ingredient)
                         (STORE_CONFIGS storeKey) user currentMonth"
  from bestStoreLoop_start [OF availableStores_nonempty [of user], where f = ?f and start = market and startSavings = 0]
  obtain s' p' where r: "bestStoreLoop ?f (availableStores user) (market, None, 0)
                           = (s', Some p', original_price (?f s') - p')"
    "p' = final_price (?f s')" "s' \<in> set (availableStores user)"
    "\<forall>st \<in> set (availableStores user). p' \<le> final_price (?f st)"
    by auto
  from assms food cost r(1) have "s = s'" "p = p'" "sv = original_price (?f s') - p'"
    by (auto simp: assignStore_def)
  with food cost r show ?thesis by blast
qed

lemma distributeLoop_acc:
  "total_cost (distributeLoop F U M ings acc)
     = total_cost acc + sum_list (map (assignedPrice F U M) ings)
   \<and> total_savings (distributeLoop F U M ings acc)
     = total_savings acc + sum_list (map (assignedSavings F U M) ings)
   \<and> (\<forall>st. distribution (distributeLoop F U M ings acc) st
          = distribution acc st @ filter (\<lambda>ing. assignedStore F U M ing = Some st) ings)"
proof (induction ings arbitrary: acc)
  case Nil
  then show ?case by simp
next
  case (Cons ing ings)
  show ?case
  proof (cases "assignStore F U M ing")
    case None
    then show ?thesis
      using Cons.IH [of acc]
      by (simp add: assignedPrice_def assignedSavings_def assignedStore_def)
  next
    case (Some r)
    obtain s p sv where r: "r = (s, p, sv)" by (cases r) auto
    let ?acc = "acc \<lparr> distribution := (distribution acc)(s := distribution acc s @ [ing]),
                       cost_breakdown := (cost_breakdown acc)(s := cost_breakdown acc s + p),
                       total_cost := total_cost acc + p,
                       total_savings := total_savings acc + sv \<rparr>"
    have step: "distributeLoop F U M (ing # ings) acc = distributeLoop F U M ings ?acc"
      using Some r by simp
    show ?thesis
      unfolding step using Cons.IH [of ?acc] Some r
      by (simp add: assignedPrice_def assignedSavings_def assignedStore_def)
  qed
qed

lemma deliveryLoop_acc:
  "distribution (deliveryLoop stores acc) = distribution acc
   \<and> total_savings (deliveryLoop stores acc) = total_savings acc
   \<and> total_cost (deliveryLoop stores acc)
       = total_cost acc
         + sum_list (map deliveryCostOf (filter (\<lambda>st. distribution acc st \<noteq> []) stores))"
proof (induction stores arbitrary: acc)
  case Nil
  then show ?case by simp
next
  case (Cons st stores)
  show ?case
  proof (cases "distribution acc st \<noteq> []")
    case False
    then show ?thesis using Cons.IH [of acc] by simp
  next
    case True
    show ?thesis
    proof (cases "delivery_cost (STORE_CONFIGS st)")
      case None
      then show ?thesis using True Cons.IH [of acc] by (simp add: deliveryCostOf_def)
    next
      case (Some c)
      show ?thesis
      proof (cases "c = 0")
        case True
        then show ?thesis
          using Some \<open>distribution acc st \<noteq> []\<close> Cons.IH [of acc]
          by (simp add: deliveryCostOf_def)
      next
        case False
        let ?acc = "acc \<lparr> cost_breakdown := (cost_breakdown acc)(st := cost_breakdown acc st + c),
                          total_cost := total_cost acc + c \<rparr>"
        have "deliveryLoop (st # stores) acc = deliveryLoop stores ?acc"
          using False Some True by simp
        then show ?thesis
          using Cons.IH [of ?acc] Some True by (simp add: deliveryCostOf_def)
      qed
    qed
  qed
qed

lemma shoppingItem_assigned:
  assumes "assignStore F U M ing = Some (st, p, sv)"
  shows "\<exists>item. shoppingItem F U M st ing = Some item \<and> itemCost item = p"
proof -
  from assignStore_Some [OF assms] obtain foodItem cost where
    "find (\<lambda>f. food_ident f = ingredient_food_id ing) F = Some foodItem"
    "cost_per_kg foodItem = Some cost"
    "p = final_price (calculateDiscountedPrice cost foodItem (total_grams ing)
                        (STORE_CONFIGS st) U M)"
    by blast
  then show ?thesis by (simp add: shoppingItem_def itemCost_def)
qed

lemma store_items_cost:
  "sum_list (map itemCost (List.map_filter (shoppingItem F U M st)
                             (filter (\<lambda>ing. assignedStore F U M ing = Some st) ings)))
     = sum_list (map (assignedPrice F U M) (filter (\<lambda>ing. assignedStore F U M ing = Some st) ings))"
proof (induction ings)
  case Nil
  then show ?case by (simp add: List.map_filter_simps)
next
  case (Cons ing ings)
  show ?case
  proof (cases "assignedStore F U M ing = Some st")
    case False
    then show ?thesis using Cons.IH by simp
  next
    case True
    then obtain p sv where a: "assignStore F U M ing = Some (st, p, sv)"
      by (auto simp: assignedStore_def)
    from shoppingItem_assigned [OF a] obtain item where
      "shoppingItem F U M st ing = Some item" "itemCost item = p" by blast
    then show ?thesis
      using True a Cons.IH by (simp add: List.map_filter_simps assignedPrice_def)
  qed
qed

lemma sum_list_single:
  fixes c :: rat
  assumes "distinct stores"
  shows "sum_list (map (\<lambda>st. if s = st then c else 0) stores) = (if s \<in> set stores then c else 0)"
  using assms by (induction stores) auto

lemma sum_by_store:
  fixes f :: "'a \<Rightarrow> rat"
  assumes "distinct stores"
    and "\<forall>x \<in> set xs. case g x of None \<Rightarrow> f x = 0 | Some s \<Rightarrow> s \<in> set stores"
  shows "sum_list (map (\<lambda>st. sum_list (map f (filter (\<lambda>x. g x = Some st) xs))) stores)
           = sum_list (map f xs)"
  using assms(2)
proof (induction xs)
  case Nil
  then show ?case by simp
next
  case (Cons x xs)
  have split: "sum_list (map (\<lambda>st. sum_list (map f (filter (\<lambda>x. g x = Some st) (x # xs)))) stores)
      = sum_list (map (\<lambda>st. if g x = Some st then f x else 0) stores)
        + sum_list (map (\<lambda>st. sum_list (map f (filter (\<lambda>x. g x = Some st) xs))) stores)"
  proof -
    have "(\<lambda>st. sum_list (map f (filter (\<lambda>x. g x = Some st) (x # xs))))
            = (\<lambda>st. (if g x = Some st then f x else 0)
                      + sum_list (map f (filter (\<lambda>x. g x = Some st) xs)))"
      by (rule ext) simp
    then show ?thesis by (simp only: sum_list_addf)
  qed
  have one: "sum_list (map (\<lambda>st. if g x = Some st then f x else 0) stores) = f x"
  proof (cases "g x")
    case None
    with Cons.prems show ?thesis by simp
  next
    case (Some s)
    with Cons.prems have "s \<in> set stores" by simp
    with sum_list_single [OF assms(1), of s "f x"] Some show ?thesis by simp
  qed
  from Cons have "sum_list (map (\<lambda>st. sum_list (map f (filter (\<lambda>x. g x = Some st) xs))) stores)
           = sum_list (map f xs)" by simp
  with split one show ?case by simp
qed

lemma sum_list_map_concat:
  fixes h :: "'a \<Rightarrow> rat"
  shows "sum_list (map h (concat xss)) = sum_list (map (\<lambda>xs. sum_list (map h xs)) xss)"
  by (induction xss) simp_all

text \<open>
  C9. For every user, set of plan days, catalog, food table and month, the total cost
  estimate of the list returned by \<open>generateWeeklyShoppingList\<close> is the sum, over the
  consolidated ingredients, of the price at the store each is assigned to, plus the
  delivery cost of every available store that some ingredient is assigned to; the total
  savings of the optimization are the sum of the savings of the ingredients; the cost
  estimates of the items of the list add up to the same sum of prices. An ingredient is
  assigned to an available store where its discounted price is lowest; its price is the
  discounted price there and its savings the original price minus that price. An
  ingredient whose food is unknown or has no cost per kilogram is assigned to no store
  and counts for nothing.
\<close>

theorem generateWeeklyShoppingList_costs:
  fixes user :: User and mealPlans :: "MealPlanDay list" and recipes :: "Recipe list"
    and foodItems :: "FoodItem list" and weekStart :: string and currentMonth :: nat
  defines "consolidated \<equiv> consolidateIngredients mealPlans recipes"
  defines "shoppingList \<equiv>
             generateWeeklyShoppingList currentMonth user mealPlans recipes foodItems weekStart"
  defines "optimization \<equiv> optimizeStoreDistribution consolidated foodItems user currentMonth"
  shows "total_cost_estimate shoppingList
           = Some (sum_list (map (assignedPrice foodItems user currentMonth) consolidated)
                   + sum_list (map deliveryCostOf
                       (filter (\<lambda>st. \<exists>ing \<in> set consolidated.
                                        assignedStore foodItems user currentMonth ing = Some st)
                          (availableStores user))))
         \<and> total_savings optimization
             = sum_list (map (assignedSavings foodItems user currentMonth) consolidated)
         \<and> sum_list (map itemCost (items shoppingList))
             = sum_list (map (assignedPrice foodItems user currentMonth) consolidated)
         \<and> (\<forall>ing \<in> set consolidated. \<forall>s p sv.
               assignStore foodItems user currentMonth ing = Some (s, p, sv) \<longrightarrow>
               s \<in> set (availableStores user)
               \<and> (\<exists>foodItem cost.
                     find (\<lambda>f. food_ident f = ingredient_food_id ing) foodItems = Some foodItem
                     \<and> cost_per_kg foodItem = Some cost \<and> cost \<noteq> 0
                     \<and> p = final_price (calculateDiscountedPrice cost foodItem (total_grams ing)
                                          (STORE_CONFIGS s) user currentMonth)
                     \<and> sv = original_price (calculateDiscountedPrice cost foodItem
                                               (total_grams ing) (STORE_CONFIGS s) user
                                               currentMonth) - p
                     \<and> (\<forall>st \<in> set (availableStores user).
                           p \<le> final_price (calculateDiscountedPrice cost foodItem
                                               (total_grams ing) (STORE_CONFIGS st) user
                                               currentMonth))))"
proof -
  let ?init = "\<lparr> distribution = (\<lambda>_. []), cost_breakdown = (\<lambda>_. 0), total_cost = 0,
                 total_savings = 0 \<rparr> :: Optimization"
  let ?mid = "distributeLoop foodItems user currentMonth consolidated ?init"
  let ?stores = "availableStores user"
  let ?assigned = "\<lambda>st ing. assignedStore foodItems user currentMonth ing = Some st"
  have opt: "optimization = deliveryLoop ?stores ?mid"
    by (simp add: optimization_def optimizeStoreDistribution_def)
  have mid_cost: "total_cost ?mid
                    = sum_list (map (assignedPrice foodItems user currentMonth) consolidated)"
    and mid_sav: "total_savings ?mid
                    = sum_list (map (assignedSavings foodItems user currentMonth) consolidated)"
    and mid_dist: "\<And>st. distribution ?mid st = filter (?assigned st) consolidated"
    using distributeLoop_acc [of foodItems user currentMonth consolidated ?init] by simp_all
  have nonempty: "\<And>st. distribution ?mid st \<noteq> [] \<longleftrightarrow> (\<exists>ing \<in> set consolidated. ?assigned st ing)"
    by (simp add: mid_dist filter_empty_conv)
  have cost: "total_cost optimization
      = sum_list (map (assignedPrice foodItems user currentMonth) consolidated)
        + sum_list (map deliveryCostOf
            (filter (\<lambda>st. \<exists>ing \<in> set consolidated. ?assigned st ing) ?stores))"
    using deliveryLoop_acc [of ?stores ?mid] by (simp add: opt mid_cost nonempty)
  have sav: "total_savings optimization
      = sum_list (map (assignedSavings foodItems user currentMonth) consolidated)"
    using deliveryLoop_acc [of ?stores ?mid] by (simp add: opt mid_sav)
  have dist: "\<And>st. distribution optimization st = filter (?assigned st) consolidated"
    using deliveryLoop_acc [of ?stores ?mid] by (simp add: opt mid_dist)
  have list_cost: "total_cost_estimate shoppingList = Some (total_cost optimization)"
    by (simp add: shoppingList_def generateWeeklyShoppingList_def Let_def optimization_def
        consolidated_def)
  have list_items: "items shoppingList
      = concat (map (\<lambda>storeKey.
                  List.map_filter (shoppingItem foodItems user currentMonth storeKey)
                    (filter (?assigned storeKey) consolidated)) ?stores)"
    using dist
    by (simp add: shoppingList_def generateWeeklyShoppingList_def Let_def optimization_def
        consolidated_def)
  have covered: "\<forall>ing \<in> set consolidated.
      case assignedStore foodItems user currentMonth ing of
        None \<Rightarrow> assignedPrice foodItems user currentMonth ing = 0
      | Some s \<Rightarrow> s \<in> set ?stores"
  proof
    fix ing assume "ing \<in> set consolidated"
    show "case assignedStore foodItems user currentMonth ing of
            None \<Rightarrow> assignedPrice foodItems user currentMonth ing = 0
          | Some s \<Rightarrow> s \<in> set ?stores"
    proof (cases "assignStore foodItems user currentMonth ing")
      case None
      then show ?thesis by (simp add: assignedStore_def assignedPrice_def)
    next
      case (Some r)
      obtain s p sv where "r = (s, p, sv)" by (cases r) auto
      with Some assignStore_Some [of foodItems user currentMonth ing s p sv]
      show ?thesis by (simp add: assignedStore_def)
    qed
  qed
  have "sum_list (map itemCost (items shoppingList))
      = sum_list (map (\<lambda>st. sum_list (map (assignedPrice foodItems user currentMonth)
                                        (filter (?assigned st) consolidated))) ?stores)"
    by (simp add: list_items sum_list_map_concat comp_def store_items_cost)
  also have "\<dots> = sum_list (map (assignedPrice foodItems user currentMonth) consolidated)"
    by (rule sum_by_store [OF availableStores_distinct covered])
  finally have item_sum: "sum_list (map itemCost (items shoppingList))
      = sum_list (map (assignedPrice foodItems user currentMonth) consolidated)" .
  have char: "\<forall>ing \<in> set consolidated. \<forall>s p sv.
               assignStore foodItems user currentMonth ing = Some (s, p, sv) \<longrightarrow>
               s \<in> set (availableStores user)
               \<and> (\<exists>foodItem cost.
                     find (\<lambda>f. food_ident f = ingredient_food_id ing) foodItems = Some foodItem
                     \<and> cost_per_kg foodItem = Some cost \<and> cost \<noteq> 0
                     \<and> p = final_price (calculateDiscountedPrice cost foodItem (total_grams ing)
                                          (STORE_CONFIGS s) user currentMonth)
                     \<and> sv = original_price (calculateDiscountedPrice cost foodItem
                                               (total_grams ing) (STORE_CONFIGS s) user
                                               currentMonth) - p
                     \<and> (\<forall>st \<in> set (availableStores user).
                           p \<le> final_price (calculateDiscountedPrice cost foodItem
                                               (total_grams ing) (STORE_CONFIGS st) user
                                               currentMonth)))"
    using assignStore_Some by blast
  from list_cost cost sav item_sum char show ?thesis by simp
qed

text \<open>
  The theorem at a low-budget user and six days of one chicken meal, in February: 1200 g
  of chicken at 6000 per kg go to the BAES store for 4590 (7200 less 25 percent, less 15
  percent), saving 2610; with the courgettes the total is 5365, and no delivery is
  charged.
\<close>

theorem generateWeeklyShoppingList_costs_witness:
  "consolidateIngredients sample_week sample_recipes \<noteq> []
   \<and> assignStore sample_foods user_low 2 (hd (consolidateIngredients sample_week sample_recipes))
       = Some (baes, 4590, 2610)
   \<and> total_cost_estimate
       (generateWeeklyShoppingList 2 user_low sample_week sample_recipes sample_foods
          ''2024-02-05'') = Some 5365
   \<and> total_savings
       (optimizeStoreDistribution (consolidateIngredients sample_week sample_recipes)
          sample_foods user_low 2) = 3185"
proof -
  have h1: "consolidateIngredients sample_week sample_recipes \<noteq> []" by code_simp
  have h2: "assignStore sample_foods user_low 2
              (hd (consolidateIngredients sample_week sample_recipes)) = Some (baes, 4590, 2610)"
    by code_simp
  have c: "Some (sum_list (map (assignedPrice sample_foods user_low 2)
                             (consolidateIngredients sample_week sample_recipes))
                 + sum_list (map deliveryCostOf
                     (filter (\<lambda>st. \<exists>ing \<in> set (consolidateIngredients sample_week sample_recipes).
                                      assignedStore sample_foods user_low 2 ing = Some st)
                        (availableStores user_low)))) = Some 5365"
    by code_simp
  have s: "sum_list (map (assignedSavings sample_foods user_low 2)
                       (consolidateIngredients sample_week sample_recipes)) = 3185"
    by code_simp
  from generateWeeklyShoppingList_costs [of 2 user_low sample_week sample_recipes sample_foods
      "''2024-02-05''"] c s h1 h2
  show ?thesis by simp
qed

end
